theory Spec2Isabelle
  imports Main "HOL-Library.Sublist"
begin

section \<open>Strings as the shell and the JavaScript runtime see them\<close>

text \<open>
  A string is a list of characters (of bytes, for text outside ASCII). The functions of
  this section compare characters as they are; the only classes they know are ASCII ones
  (the newline, the letters A-Z and a-z, the digits). The operations of the JavaScript
  runtime that depend on Unicode tables are parameters of the model (see the section on
  \<open>base.ts\<close>).
\<close>

definition NL :: char where
  "NL = CHR 0x0A"

text \<open>\<open>s.includes(sub)\<close> in JavaScript, \<open>[[ $s == *sub* ]]\<close> and \<open>grep -q sub\<close>
  (for a literal without newline) in the shell: \<open>sub\<close> occurs in \<open>s\<close>.\<close>

fun str_includes :: "string \<Rightarrow> string \<Rightarrow> bool" where
  "str_includes [] sub = (sub = [])"
| "str_includes (c # cs) sub = (prefix sub (c # cs) \<or> str_includes cs sub)"

text \<open>\<open>s.split("\n")\<close>: the pieces between newlines; never an empty array.\<close>

fun split_nl :: "string \<Rightarrow> string list" where
  "split_nl [] = [[]]"
| "split_nl (c # cs) =
     (if c = NL then [] # split_nl cs
      else (case split_nl cs of
              [] \<Rightarrow> [[c]]
            | l # ls \<Rightarrow> (c # l) # ls))"

text \<open>\<open>lines.join("\n")\<close>.\<close>

fun join_nl :: "string list \<Rightarrow> string" where
  "join_nl [] = []"
| "join_nl [l] = l"
| "join_nl (l # m # ls) = l @ NL # join_nl (m # ls)"

text \<open>What \<open>$(command)\<close> keeps of the command's output: trailing newlines are dropped.\<close>

definition cmdsubst :: "string \<Rightarrow> string" where
  "cmdsubst s = rev (dropWhile (\<lambda>c. c = NL) (rev s))"

definition upper_letters :: string where
  "upper_letters = ''ABCDEFGHIJKLMNOPQRSTUVWXYZ''"

definition lower_letters :: string where
  "lower_letters = ''abcdefghijklmnopqrstuvwxyz''"

definition digit_chars :: string where
  "digit_chars = ''0123456789''"

definition is_lower :: "char \<Rightarrow> bool" where
  "is_lower c = (c \<in> set lower_letters)"

definition is_digit :: "char \<Rightarrow> bool" where
  "is_digit c = (c \<in> set digit_chars)"

definition lower_char :: "char \<Rightarrow> char" where
  "lower_char c = (case map_of (zip upper_letters lower_letters) c of Some d \<Rightarrow> d | None \<Rightarrow> c)"

text \<open>\<open>tr '[:upper:]' '[:lower:]'\<close>, and \<open>s.toLowerCase()\<close> on ASCII text.\<close>

definition toLowerCase :: "string \<Rightarrow> string" where
  "toLowerCase s = map lower_char s"

text \<open>\<open>[[ $s =~ ^[0-9]+$ ]]\<close>.\<close>

definition all_digits :: "string \<Rightarrow> bool" where
  "all_digits s = (s \<noteq> [] \<and> list_all is_digit s)"

definition digit_value :: "char \<Rightarrow> int" where
  "digit_value c = (case map_of (zip digit_chars [0, 1, 2, 3, 4, 5, 6, 7, 8, 9]) c of Some d \<Rightarrow> d | None \<Rightarrow> 0)"

text \<open>The value the shell's arithmetic gives a string of decimal digits.\<close>

definition digits_value :: "string \<Rightarrow> int" where
  "digits_value s = foldl (\<lambda>a c. 10 * a + digit_value c) 0 s"

definition digit_char :: "nat \<Rightarrow> char" where
  "digit_char n = digit_chars ! n"

text \<open>The decimal text of a number, as \<open>$n\<close> expands.\<close>

function show_nat :: "nat \<Rightarrow> string" where
  "show_nat n = (if n < 10 then [digit_char n] else show_nat (n div 10) @ [digit_char (n mod 10)])"
  by pat_completeness auto
termination
  by (relation "measure id") auto

declare show_nat.simps [simp del]

text \<open>
  \<open>echo "$s"\<close> with the shell's builtin: an argument made of a dash and letters among
  \<open>n\<close>, \<open>e\<close>, \<open>E\<close> is taken as options and not printed; with \<open>n\<close> among them not even the
  newline is printed.
\<close>

definition echo_option :: "string \<Rightarrow> bool" where
  "echo_option s =
     (case s of
        [] \<Rightarrow> False
      | c # cs \<Rightarrow> c = CHR ''-'' \<and> cs \<noteq> [] \<and> list_all (\<lambda>d. d \<in> set ''neE'') cs)"

definition echo :: "string \<Rightarrow> string" where
  "echo s = (if echo_option s then (if CHR ''n'' \<in> set s then [] else [NL]) else s @ [NL])"

text \<open>The lines a line-oriented program (grep, sed, tail) reads from a text: the newline
  that ends the text does not open another line.\<close>

definition text_lines :: "string \<Rightarrow> string list" where
  "text_lines t =
     (if t = [] then [] else if last t = NL then split_nl (butlast t) else split_nl t)"

text \<open>The text such a program prints for a list of lines.\<close>

definition as_stdin :: "string list \<Rightarrow> string" where
  "as_stdin ls = concat (map (\<lambda>l. l @ [NL]) ls)"

section \<open>ralphy.sh: configuration\<close>

text \<open>
  The script runs under \<open>set -euo pipefail\<close>, and what \<open>set -e\<close> does depends on the bash
  that runs it. In every bash a failing simple command that is not tested (not in a
  condition, not before \<open>||\<close> or \<open>&&\<close>, not inside a function called there) ends the
  script, and a command substitution \<open>$(...)\<close> runs with \<open>set -e\<close> off. From bash 4.1 on
  the same holds for an arithmetic command \<open>((...))\<close>, whose status is 1 when its value is
  0 (so \<open>((n++))\<close> fails when \<open>n\<close> is 0), and for a subshell \<open>( ... )\<close>; in bash 3.2
  neither ends the script. The field \<open>strict_errexit\<close> of the configuration says which
  shell runs the script: true for bash 4.1 and later, false for bash 3.2. It is the one
  field that is not a variable of the script.

  External programs (the agent, git, gh, yq, jq, sed on a pattern with special
  characters) are inputs of the model: what they print and whether they succeed is given
  by the environment.
\<close>

datatype prd_source = Markdown | Yaml | Github

record config =
  USE_OPENCODE :: bool
  DRY_RUN :: bool
  MAX_ITERATIONS :: int
  MAX_RETRIES :: int
  BRANCH_PER_TASK :: bool
  CREATE_PR :: bool
  MAX_PARALLEL :: int
  PRD_SOURCE :: prd_source
  WORKTREE_BASE :: string
  strict_errexit :: bool

subsection \<open>slugify\<close>

definition is_slug_char :: "char \<Rightarrow> bool" where
  "is_slug_char c = (is_lower c \<or> is_digit c)"

text \<open>\<open>sed -E 's/[^a-z0-9]+/-/g'\<close>: every maximal run of other characters becomes one dash.\<close>

fun collapse_runs :: "bool \<Rightarrow> string \<Rightarrow> string" where
  "collapse_runs in_run [] = []"
| "collapse_runs in_run (c # cs) =
     (if is_slug_char c then c # collapse_runs False cs
      else if in_run then collapse_runs True cs
      else CHR ''-'' # collapse_runs True cs)"

text \<open>\<open>sed -E 's/^-|-$//g'\<close>: a dash at the start and a dash at the end are removed.\<close>

definition trim_dashes :: "string \<Rightarrow> string" where
  "trim_dashes s =
     (let t = (case s of [] \<Rightarrow> [] | c # cs \<Rightarrow> if c = CHR ''-'' then cs else c # cs)
      in if t \<noteq> [] \<and> last t = CHR ''-'' then butlast t else t)"

text \<open>\<open>$(slugify "$1")\<close>, for a one-line argument: the pipeline works on what \<open>echo "$1"\<close>
  prints, which is nothing for an argument that echo takes as options.\<close>

definition slugify :: "string \<Rightarrow> string" where
  "slugify s =
     (if echo_option s then []
      else take 50 (trim_dashes (collapse_runs False (toLowerCase s))))"

subsection \<open>Shell text helpers\<close>

text \<open>\<open>echo "$text" | grep pat\<close>: the lines of what echo prints that contain the literal.\<close>

definition grep_lines :: "string \<Rightarrow> string \<Rightarrow> string list" where
  "grep_lines pat text = filter (\<lambda>l. str_includes l pat) (text_lines (echo text))"

text \<open>\<open>... | tail -1\<close> and \<open>... | head -1\<close> inside a command substitution: the last
  (first) line, the empty string when there is none.\<close>

definition tail1 :: "string list \<Rightarrow> string" where
  "tail1 ls = (if ls = [] then [] else last ls)"

definition head1 :: "string list \<Rightarrow> string" where
  "head1 ls = (case ls of [] \<Rightarrow> [] | l # _ \<Rightarrow> l)"

text \<open>\<open>${s%%c*}\<close>: the text before the first \<open>c\<close>; \<open>${s##*c}\<close>: the text after the
  last \<open>c\<close>.\<close>

definition before_first :: "char \<Rightarrow> string \<Rightarrow> string" where
  "before_first c s = takeWhile (\<lambda>d. d \<noteq> c) s"

definition after_last :: "char \<Rightarrow> string \<Rightarrow> string" where
  "after_last c s = rev (takeWhile (\<lambda>d. d \<noteq> c) (rev s))"

text \<open>
  jq is an external program: \<open>jq flt input\<close> is what it prints for the filter on the
  given standard input, and whether it exited with status 0. \<open>capture_or r dflt\<close> is the
  value of \<open>$(... | jq ... 2>/dev/null || echo dflt)\<close>.
\<close>

type_synonym jq = "string \<Rightarrow> string \<Rightarrow> string \<times> bool"

definition capture_or :: "string \<times> bool \<Rightarrow> string \<Rightarrow> string" where
  "capture_or r dflt = cmdsubst (fst r @ (if snd r then [] else echo dflt))"

subsection \<open>parse_ai_result and check_for_errors\<close>

text \<open>The four variables \<open>parse_ai_result\<close> ends with: the response, the sanitised token
  counts and the cost.\<close>

record ai_result =
  response :: string
  input_tokens :: string
  output_tokens :: string
  actual_cost :: string

definition sanitize_tokens :: "string \<Rightarrow> string" where
  "sanitize_tokens t = (if all_digits t then t else ''0'')"

definition parse_opencode :: "jq \<Rightarrow> string \<Rightarrow> ai_result" where
  \<open>parse_opencode jq result =
     (let step_finish = tail1 (grep_lines ''"type":"step_finish"'' result);
          from_step = (\<lambda>flt. if step_finish \<noteq> []
                              then capture_or (jq flt (echo step_finish)) ''0'' else ''0'');
          texts = grep_lines ''"type":"text"'' result;
          r = jq ''map(.part.text // "") | join("")'' (as_stdin texts);
          text = capture_or (fst r, snd r \<and> texts \<noteq> []) []
      in \<lparr>response = (if text = [] then ''Task completed'' else text),
          input_tokens = sanitize_tokens (from_step ''.part.tokens.input // 0''),
          output_tokens = sanitize_tokens (from_step ''.part.tokens.output // 0''),
          actual_cost = from_step ''.part.cost // 0''\<rparr>)\<close>

definition parse_claude :: "jq \<Rightarrow> string \<Rightarrow> ai_result" where
  \<open>parse_claude jq result =
     (let result_line = tail1 (grep_lines ''"type":"result"'' result)
      in if result_line \<noteq> []
         then \<lparr>response = capture_or (jq ''.result // "No result text"'' (echo result_line))
                              ''Could not parse result'',
               input_tokens = sanitize_tokens
                 (capture_or (jq ''.usage.input_tokens // 0'' (echo result_line)) ''0''),
               output_tokens = sanitize_tokens
                 (capture_or (jq ''.usage.output_tokens // 0'' (echo result_line)) ''0''),
               actual_cost = ''0''\<rparr>
         else \<lparr>response = [], input_tokens = ''0'', output_tokens = ''0'',
               actual_cost = ''0''\<rparr>)\<close>

definition parse_vars :: "jq \<Rightarrow> bool \<Rightarrow> string \<Rightarrow> ai_result" where
  "parse_vars jq use_opencode result =
     (if use_opencode then parse_opencode jq result else parse_claude jq result)"

text \<open>What \<open>parse_ai_result\<close> prints, which is all a caller gets of it: five \<open>echo\<close>
  commands.\<close>

definition parse_ai_result :: "jq \<Rightarrow> bool \<Rightarrow> string \<Rightarrow> string" where
  "parse_ai_result jq use_opencode result =
     (let v = parse_vars jq use_opencode result
      in echo (response v) @ echo ''---TOKENS---'' @ echo (input_tokens v)
         @ echo (output_tokens v) @ echo (actual_cost v))"

text \<open>
  What the callers make of \<open>parsed=$(parse_ai_result "$result")\<close>:
  \<open>$(echo "$parsed" | sed '/^---TOKENS---$/,$d')\<close> is the response,
  \<open>$(echo "$parsed" | sed -n '/^---TOKENS---$/,$p' | tail -3)\<close> the token data, and
  \<open>$(echo "$token_data" | sed -n 'Np')\<close> its \<open>N\<close>-th line.
\<close>

definition tokens_mark :: string where
  "tokens_mark = ''---TOKENS---''"

definition response_of :: "string \<Rightarrow> string" where
  "response_of parsed =
     cmdsubst (as_stdin (takeWhile (\<lambda>l. l \<noteq> tokens_mark) (text_lines (echo parsed))))"

definition last_lines :: "nat \<Rightarrow> string list \<Rightarrow> string list" where
  "last_lines n ls = drop (length ls - n) ls"

definition token_data_of :: "string \<Rightarrow> string" where
  "token_data_of parsed =
     cmdsubst (as_stdin (last_lines 3 (dropWhile (\<lambda>l. l \<noteq> tokens_mark) (text_lines (echo parsed)))))"

definition line_of :: "nat \<Rightarrow> string \<Rightarrow> string" where
  "line_of n t =
     cmdsubst (as_stdin (take 1 (drop (n - 1) (text_lines (echo t)))))"

text \<open>
  \<open>check_for_errors\<close>: \<open>None\<close> is status 0 (no error record), \<open>Some msg\<close> is status 1 with
  the message printed. Its test is the pipeline \<open>echo "$result" | grep -q ...\<close> under
  \<open>pipefail\<close>: it holds when grep finds a line and echo is not ended by SIGPIPE. grep
  leaves at the first line it finds; an echo that is still writing then (as it is when
  the rest of the output does not fit in the pipe) is killed, the pipeline fails and the
  error record goes unseen. Whether that happens for a given output is decided outside
  the script, like the same event in the pipeline that extracts the message, where
  \<open>head -1\<close> leaves early.
\<close>

record tools =
  t_jq :: jq
  t_grep_q_cut :: "string \<Rightarrow> bool"
  t_head_cut :: "string \<Rightarrow> bool"

definition check_for_errors :: "tools \<Rightarrow> string \<Rightarrow> string option" where
  \<open>check_for_errors tools result =
     (let error_lines = grep_lines ''"type":"error"'' result
      in if error_lines \<noteq> [] \<and> \<not> t_grep_q_cut tools result
         then (let r = t_jq tools ''.error.message // .message // .'' (as_stdin [head1 error_lines])
               in Some (capture_or (fst r, snd r \<and> \<not> t_head_cut tools result) ''Unknown error''))
         else None)\<close>

subsection \<open>Task sources\<close>

text \<open>
  The markdown source is the file \<open>$PRD_FILE\<close>, kept as its list of lines. The YAML file
  and the GitHub issues are reached through \<open>yq\<close> and \<open>gh\<close> only: the model records the
  titles handed to \<open>yq -i '(.tasks[] | select(.title == "T")).completed = true'\<close> when yq
  succeeds, and the issue numbers handed to \<open>gh issue close\<close>, in call order.
\<close>

record store =
  prd_lines :: "string list"
  yq_completed :: "string list"
  gh_closed :: "string list"

definition box_open :: string where
  "box_open = ''- [ ] ''"

definition box_done :: string where
  "box_done = ''- [x] ''"

text \<open>\<open>grep '^\- \[ \]' "$PRD_FILE" | sed 's/^- \[ \] //'\<close>.\<close>

definition get_tasks_markdown :: "string list \<Rightarrow> string list" where
  "get_tasks_markdown ls =
     map (\<lambda>l. if prefix box_open l then drop (length box_open) l else l)
       (filter (\<lambda>l. prefix ''- [ ]'' l) ls)"

text \<open>
  \<open>mark_task_complete_markdown\<close> runs \<open>sed "s/^- \[ \] T/- [x] T/"\<close> over the file, where
  \<open>T\<close> is the title with each of the characters \<open>[ \ . * ^ $ ( ) + ? { |\<close> preceded by a
  backslash. The pattern has no \<open>$\<close> at its end.

  For a title without \<open>( ) + ? { | / &\<close> the pattern matches the title literally and the
  replacement is the literal text: every line that starts with \<open>- [ ] T\<close> gets \<open>- [x] T\<close>
  in its place.

  In a basic regular expression of GNU sed, \<open>\|\<close> separates alternatives. For a title
  whose only characters among \<open>( ) + ? { | / &\<close> are bars, with pieces \<open>T1|T2|...\<close>, GNU
  sed therefore looks in each line for \<open>- [ ] T1\<close> at the start of the line or for any of
  \<open>T2\<close>, ... anywhere: it takes the leftmost place where one of them matches, the longest
  match there, and puts \<open>- [x] T\<close> (the whole title) in its place.

  For every other title, and for a sed of another dialect on a title with a bar, what sed
  does is given by the environment (\<open>sed_rx\<close>): the new lines, or the status with which
  sed fails (as for a title with a slash, which ends the pattern early).
\<close>

definition sed_plain :: "string \<Rightarrow> bool" where
  "sed_plain task = (\<forall>c \<in> set task. c \<notin> set ''()+?{|/&'')"

definition sed_mark_line :: "string \<Rightarrow> string \<Rightarrow> string" where
  "sed_mark_line task l =
     (if prefix (box_open @ task) l
      then box_done @ task @ drop (length (box_open @ task)) l
      else l)"

definition sed_bars_only :: "string \<Rightarrow> bool" where
  "sed_bars_only task = (\<forall>c \<in> set task. c \<notin> set ''()+?{/&'')"

fun split_bar :: "string \<Rightarrow> string list" where
  "split_bar [] = [[]]"
| "split_bar (c # cs) =
     (if c = CHR ''|'' then [] # split_bar cs
      else (case split_bar cs of
              [] \<Rightarrow> [[c]]
            | p # ps \<Rightarrow> (c # p) # ps))"

text \<open>The lengths of the alternatives that match at position \<open>j\<close> of the line.\<close>

definition alt_lengths :: "string list \<Rightarrow> string \<Rightarrow> nat \<Rightarrow> nat list" where
  "alt_lengths pieces l j =
     (if j = 0 \<and> prefix (box_open @ hd pieces) l then [length (box_open @ hd pieces)] else [])
     @ map length (filter (\<lambda>p. prefix p (drop j l)) (tl pieces))"

definition sed_alt_line :: "string \<Rightarrow> string \<Rightarrow> string" where
  "sed_alt_line task l =
     (let pieces = split_bar task
      in case filter (\<lambda>j. alt_lengths pieces l j \<noteq> []) [0 ..< Suc (length l)] of
           [] \<Rightarrow> l
         | j # _ \<Rightarrow> take j l @ box_done @ task
                     @ drop (j + foldl max 0 (alt_lengths pieces l j)) l)"

text \<open>The new lines of the file, or (\<open>Inl\<close>) the status of a failing sed.\<close>

definition mark_task_complete_markdown ::
  "bool \<Rightarrow> (string \<Rightarrow> string list \<Rightarrow> int + string list) \<Rightarrow> string \<Rightarrow> string list
     \<Rightarrow> int + string list" where
  "mark_task_complete_markdown gnu_sed sed_rx task ls =
     (if sed_plain task then Inr (map (sed_mark_line task) ls)
      else if gnu_sed \<and> sed_bars_only task then Inr (map (sed_alt_line task) ls)
      else sed_rx task ls)"

subsection \<open>run_parallel_agent\<close>

datatype status = Waiting | SettingUp | Running | Done | Failed

text \<open>
  What the environment decides for one agent slot: what the git commands of
  \<open>create_agent_worktree\<close> print on standard output, which paths are directories once it
  has returned, and, for each invocation of the agent (by attempt, from 0), the content
  of the output file after it and the status the agent exited with.
\<close>

record agent_env =
  git_stdout :: string
  is_dir :: "string \<Rightarrow> bool"
  agent_output :: "nat \<Rightarrow> string"
  agent_exit :: "nat \<Rightarrow> int"

text \<open>The text \<open>create_agent_worktree\<close> prints, as \<open>$(...)\<close> captures it.\<close>

definition create_agent_worktree :: "config \<Rightarrow> agent_env \<Rightarrow> string \<Rightarrow> nat \<Rightarrow> string" where
  "create_agent_worktree cfg env task_name agent_num =
     (let branch_name = ''ralphy/agent-'' @ show_nat agent_num @ ''-'' @ slugify task_name;
          worktree_dir = WORKTREE_BASE cfg @ ''/agent-'' @ show_nat agent_num
      in cmdsubst (git_stdout env @ worktree_dir @ ''|'' @ branch_name @ [NL]))"

text \<open>
  The retry loop of \<open>run_parallel_agent\<close>: invoke the agent, stop at the first non-empty
  output. It runs in the subshell of the agent's slot, with \<open>set -e\<close> on. Where the shell
  is strict, that subshell ends (the run is killed, whatever is in the status file stays
  there) when the agent exits with a status other than 0, and when \<open>((retry++))\<close> is
  reached with \<open>retry\<close> at 0. The result is how the loop ended and the number of
  invocations made. (The commands between the \<open>-d\<close> test and the loop, \<open>touch\<close> and
  \<open>mktemp\<close>, are taken to succeed.)
\<close>

datatype retry_end = Succeeded string | GaveUp | Killed int

function agent_retry ::
  "bool \<Rightarrow> int \<Rightarrow> (nat \<Rightarrow> int) \<Rightarrow> (nat \<Rightarrow> string) \<Rightarrow> nat \<Rightarrow> retry_end \<times> nat" where
  "agent_retry strict max_retries exit_status out retry =
     (if int retry < max_retries
      then (if strict \<and> exit_status retry \<noteq> 0 then (Killed (exit_status retry), Suc retry)
            else (let result = cmdsubst (out retry)
                  in if result \<noteq> [] then (Succeeded result, Suc retry)
                     else if strict \<and> retry = 0 then (Killed 1, Suc retry)
                     else agent_retry strict max_retries exit_status out (Suc retry)))
      else (GaveUp, retry))"
  by pat_completeness auto
termination
  by (relation "measure (\<lambda>(s, m, ok, out, r). nat (m - int r))") auto

declare agent_retry.simps [simp del]

text \<open>
  One run: the values written to the status file, in order (after the scheduler's own
  \<open>waiting\<close>), the number of agent invocations, the three fields of the output file,
  whether a pull request was requested, and the return status (of a run that was killed:
  the status its subshell ended with).
\<close>

record agent_run =
  statuses :: "status list"
  invocations :: nat
  out_input_tokens :: string
  out_output_tokens :: string
  out_branch :: string
  pr_requested :: bool
  return_code :: int

definition run_parallel_agent :: "config \<Rightarrow> jq \<Rightarrow> agent_env \<Rightarrow> string \<Rightarrow> nat \<Rightarrow> agent_run" where
  "run_parallel_agent cfg jq env task_name agent_num =
     (let worktree_info = create_agent_worktree cfg env task_name agent_num;
          worktree_dir = before_first CHR ''|'' worktree_info;
          branch_name = after_last CHR ''|'' worktree_info
      in if \<not> is_dir env worktree_dir
         then \<lparr>statuses = [SettingUp, Failed], invocations = 0,
               out_input_tokens = ''0'', out_output_tokens = ''0'', out_branch = [],
               pr_requested = False, return_code = 1\<rparr>
         else (case agent_retry (strict_errexit cfg) (MAX_RETRIES cfg) (agent_exit env)
                      (agent_output env) 0 of
                 (Succeeded result, n) \<Rightarrow>
                   (let parsed = cmdsubst (parse_ai_result jq (USE_OPENCODE cfg) result);
                        token_data = token_data_of parsed
                    in \<lparr>statuses = [SettingUp, Running, Done], invocations = n,
                        out_input_tokens = sanitize_tokens (line_of 1 token_data),
                        out_output_tokens = sanitize_tokens (line_of 2 token_data),
                        out_branch = branch_name,
                        pr_requested = CREATE_PR cfg, return_code = 0\<rparr>)
               | (GaveUp, n) \<Rightarrow>
                   \<lparr>statuses = [SettingUp, Running, Failed], invocations = n,
                    out_input_tokens = ''0'', out_output_tokens = ''0'', out_branch = [],
                    pr_requested = False, return_code = 1\<rparr>
               | (Killed e, n) \<Rightarrow>
                   \<lparr>statuses = [SettingUp, Running], invocations = n,
                    out_input_tokens = [], out_output_tokens = [], out_branch = [],
                    pr_requested = False, return_code = e\<rparr>))"

text \<open>The content of the status file when the run is over.\<close>

definition final_status :: "agent_run \<Rightarrow> status" where
  "final_status r = last (Waiting # statuses r)"

subsection \<open>run_parallel_tasks\<close>

text \<open>
  Everything outside the script that a parallel run depends on: jq; sed (whether it is
  GNU sed, and what it does on the titles the model leaves to it); the status with which
  \<open>yq -i\<close> ends for a title; the task titles \<open>yq\<close> or \<open>gh\<close> list (for the YAML and GitHub
  sources); and the environment of each agent slot, by agent number.
\<close>

record world =
  w_jq :: jq
  w_gnu_sed :: bool
  w_sed_rx :: "string \<Rightarrow> string list \<Rightarrow> int + string list"
  w_yq_status :: "string \<Rightarrow> int"
  w_listed :: "string list"
  w_agent :: "nat \<Rightarrow> agent_env"

definition get_all_tasks :: "config \<Rightarrow> world \<Rightarrow> store \<Rightarrow> string list" where
  "get_all_tasks cfg w st =
     (case PRD_SOURCE cfg of
        Markdown \<Rightarrow> get_tasks_markdown (prd_lines st)
      | Yaml \<Rightarrow> w_listed w
      | Github \<Rightarrow> w_listed w)"

text \<open>
  The mark function of the results loop, by source: the task source after it, or (\<open>Inl\<close>)
  the status with which sed or yq failed. The call is a plain command of the script, so
  that failure ends the script. \<open>gh issue close ... || true\<close> cannot fail.
\<close>

definition mark_task_complete :: "world \<Rightarrow> prd_source \<Rightarrow> string \<Rightarrow> store \<Rightarrow> int + store" where
  "mark_task_complete w src task st =
     (case src of
        Markdown \<Rightarrow>
          (case mark_task_complete_markdown (w_gnu_sed w) (w_sed_rx w) task (prd_lines st) of
             Inl e \<Rightarrow> Inl e
           | Inr ls \<Rightarrow> Inr (st\<lparr>prd_lines := ls\<rparr>))
      | Yaml \<Rightarrow>
          (if w_yq_status w task = 0 then Inr (st\<lparr>yq_completed := yq_completed st @ [task]\<rparr>)
           else Inl (w_yq_status w task))
      | Github \<Rightarrow> Inr (st\<lparr>gh_closed := gh_closed st @ [before_first CHR '':'' task]\<rparr>))"

text \<open>One slot of a batch: the agent number, the task and the run of its agent.\<close>

record slot =
  slot_agent :: nat
  slot_task :: string
  slot_run :: agent_run

text \<open>The globals of the script that the scheduler updates and the task source, with two
  records of what the scheduler did: the batches launched so far (each with its slots, in
  launch order) and the slots for which it called the mark function.\<close>

record sched =
  iteration :: int
  total_input_tokens :: int
  total_output_tokens :: int
  completed_branches :: "string list"
  task_store :: store
  launched :: "slot list list"
  marked :: "slot list"

text \<open>
  The \<open>for ((i = batch_start; i < batch_end; i++))\<close> loop: the agent for \<open>tasks[i]\<close> has
  number \<open>i + 1\<close>. The body runs only for \<open>0 \<le> batch_start < batch_end \<le> total_tasks\<close>.
\<close>

definition launch_batch :: "config \<Rightarrow> world \<Rightarrow> string list \<Rightarrow> int \<Rightarrow> int \<Rightarrow> slot list" where
  "launch_batch cfg w tasks batch_start batch_end =
     map (\<lambda>i. \<lparr>slot_agent = Suc i, slot_task = tasks ! i,
                slot_run = run_parallel_agent cfg (w_jq w) (w_agent w (Suc i)) (tasks ! i) (Suc i)\<rparr>)
       [nat batch_start ..< nat batch_end]"

text \<open>
  The \<open>case "$status"\<close> of the results loop, for one slot. The first component is the
  status with which the script ends there, if it does.
\<close>

definition record_slot :: "config \<Rightarrow> world \<Rightarrow> sched \<Rightarrow> slot \<Rightarrow> int option \<times> sched" where
  "record_slot cfg w s sl =
     (case final_status (slot_run sl) of
        Done \<Rightarrow>
          (let s1 = s\<lparr>total_input_tokens := total_input_tokens s
                          + digits_value (sanitize_tokens (out_input_tokens (slot_run sl))),
                      total_output_tokens := total_output_tokens s
                          + digits_value (sanitize_tokens (out_output_tokens (slot_run sl))),
                      completed_branches := (if out_branch (slot_run sl) \<noteq> []
                                             then completed_branches s @ [out_branch (slot_run sl)]
                                             else completed_branches s),
                      marked := marked s @ [sl]\<rparr>
           in case mark_task_complete w (PRD_SOURCE cfg) (slot_task sl) (task_store s) of
                Inl e \<Rightarrow> (Some e, s1)
              | Inr st \<Rightarrow> (None, s1\<lparr>task_store := st\<rparr>))
      | _ \<Rightarrow> (None, s))"

fun record_slots :: "config \<Rightarrow> world \<Rightarrow> sched \<Rightarrow> slot list \<Rightarrow> int option \<times> sched" where
  "record_slots cfg w s [] = (None, s)"
| "record_slots cfg w s (sl # sls) =
     (case record_slot cfg w s sl of
        (Some e, s') \<Rightarrow> (Some e, s')
      | (None, s') \<Rightarrow> record_slots cfg w s' sls)"

text \<open>
  One pass of the \<open>while [[ $batch_start -lt $total_tasks ]]\<close> loop, from after
  \<open>((batch_num++))\<close> up to \<open>batch_start=$batch_end\<close>, on a shell that is not strict: launch
  the batch, wait for it, record its results. (There every agent run ends with \<open>done\<close> or
  \<open>failed\<close> in its status file, which is what the wait loop watches for.)
\<close>

definition run_batch ::
  "config \<Rightarrow> world \<Rightarrow> string list \<Rightarrow> int \<Rightarrow> sched \<Rightarrow> int \<times> int option \<times> sched" where
  "run_batch cfg w tasks batch_start s =
     (let total_tasks = int (length tasks);
          batch_end = (if batch_start + MAX_PARALLEL cfg > total_tasks then total_tasks
                       else batch_start + MAX_PARALLEL cfg);
          slots = launch_batch cfg w tasks batch_start batch_end;
          s1 = s\<lparr>iteration := iteration s + int (length slots),
                 launched := launched s @ [slots]\<rparr>
      in (batch_end, record_slots cfg w s1 slots))"

text \<open>
  How a run of the script's function ends: it returns with a status, or the script ends
  with a status.
\<close>

datatype ending = Returns int | Exits int

text \<open>
  The batch loop. Its first command is \<open>((batch_num++))\<close> with \<open>batch_num\<close> at 0: a strict
  shell ends the script there, with status 1. \<open>None\<close>: the loop does not end.
\<close>

partial_function (option) batch_loop ::
  "config \<Rightarrow> world \<Rightarrow> string list \<Rightarrow> int \<Rightarrow> sched \<Rightarrow> (ending \<times> sched) option" where
  "batch_loop cfg w tasks batch_start s =
     (if batch_start < int (length tasks)
      then (if strict_errexit cfg then Some (Exits 1, s)
            else (case run_batch cfg w tasks batch_start s of
                    (batch_end, ex, s') \<Rightarrow>
                      (case ex of
                         Some e \<Rightarrow> Some (Exits e, s')
                       | None \<Rightarrow>
                           if MAX_ITERATIONS cfg > 0 \<and> iteration s' \<ge> MAX_ITERATIONS cfg
                           then Some (Returns 0, s')
                           else batch_loop cfg w tasks batch_end s')))
      else Some (Returns 0, s))"

declare batch_loop.simps [code]

text \<open>\<open>run_parallel_tasks\<close>: how it ends (it returns 2 when there is no task) and the
  state then.\<close>

definition run_parallel_tasks :: "config \<Rightarrow> world \<Rightarrow> sched \<Rightarrow> (ending \<times> sched) option" where
  "run_parallel_tasks cfg w s =
     (let tasks = filter (\<lambda>t. t \<noteq> []) (get_all_tasks cfg w (task_store s))
      in if tasks = [] then Some (Returns 2, s)
         else batch_loop cfg w tasks 0 s)"



subsection \<open>run_single_task and the sequential loop of main\<close>

text \<open>
  In sequential mode the agent works in the repository itself and edits the task file.
  What one call of \<open>run_single_task\<close> finds is therefore given by the environment: the
  lines of \<open>$PRD_FILE\<close> at that moment (markdown source), the titles and the counts \<open>yq\<close>
  or \<open>gh\<close> report (the other sources), what \<open>log_debug\<close> and the git commands of
  \<open>create_task_branch\<close> print on standard output, and the content of the output file
  after each invocation of the agent (by attempt, from 0).
\<close>

record iter_env =
  e_prd_lines :: "string list"
  e_listed :: "string list"
  e_remaining :: string
  e_completed :: string
  e_branch_stdout :: string
  e_output :: "nat \<Rightarrow> string"

text \<open>\<open>get_next_task\<close>: the first pending title, cut to 50 characters.\<close>

definition get_next_task :: "config \<Rightarrow> iter_env \<Rightarrow> string" where
  "get_next_task cfg env =
     (case PRD_SOURCE cfg of
        Markdown \<Rightarrow> take 50 (head1 (get_tasks_markdown (e_prd_lines env)))
      | Yaml \<Rightarrow> take 50 (head1 (e_listed env))
      | Github \<Rightarrow> take 50 (head1 (e_listed env)))"

text \<open>
  \<open>count_remaining_tasks\<close> and \<open>count_completed_tasks\<close>, as \<open>$(...)\<close> captures them. For
  markdown the command is \<open>grep -c PATTERN "$PRD_FILE" || echo "0"\<close>: grep prints the count
  and, when the count is 0, fails, so that \<open>echo\<close> adds a second \<open>0\<close>. For the other
  sources the text comes from \<open>yq\<close> or \<open>gh\<close>.
\<close>

definition grep_c :: "string \<Rightarrow> string list \<Rightarrow> string" where
  "grep_c pat ls =
     (let n = length (filter (\<lambda>l. prefix pat l) ls)
      in cmdsubst (show_nat n @ [NL] @ (if n = 0 then echo ''0'' else [])))"

definition count_remaining_tasks :: "config \<Rightarrow> iter_env \<Rightarrow> string" where
  "count_remaining_tasks cfg env =
     (case PRD_SOURCE cfg of
        Markdown \<Rightarrow> grep_c ''- [ ]'' (e_prd_lines env)
      | Yaml \<Rightarrow> e_remaining env
      | Github \<Rightarrow> e_remaining env)"

definition count_completed_tasks :: "config \<Rightarrow> iter_env \<Rightarrow> string" where
  "count_completed_tasks cfg env =
     (case PRD_SOURCE cfg of
        Markdown \<Rightarrow> grep_c ''- [x]'' (e_prd_lines env)
      | Yaml \<Rightarrow> e_completed env
      | Github \<Rightarrow> e_completed env)"

definition promise_marker :: string where
  "promise_marker = ''<promise>COMPLETE</promise>''"

text \<open>
  The globals the sequential run updates, with what the orchestrator does to the outside:
  the arguments of its calls of \<open>mark_task_complete\<close>, the pull requests it asks for
  (branch and title), the number of agent invocations, and the counts the last call
  displayed (completed, remaining). \<open>create_task_branch\<close> runs inside \<open>$(...)\<close>, so its
  update of \<open>task_branches\<close> does not reach the script's own shell.
\<close>

record seq_state =
  s_iteration :: int
  s_retry_count :: nat
  s_total_input_tokens :: int
  s_total_output_tokens :: int
  s_mark_calls :: "string list"
  s_pull_requests :: "(string \<times> string) list"
  s_invocations :: nat
  s_displayed :: "string \<times> string"

text \<open>
  The retry loop of \<open>run_single_task\<close>, from \<open>retry_count\<close>: the raw output of the first
  attempt that is neither empty nor an error record for \<open>check_for_errors\<close>, or nothing
  after \<open>MAX_RETRIES\<close> attempts; with the final \<open>retry_count\<close>. Attempt \<open>k\<close> is the
  invocation made when \<open>retry_count\<close> is \<open>k\<close>. \<open>main\<close> calls \<open>run_single_task\<close> before
  \<open>||\<close>, so no command in it ends the script under \<open>set -e\<close>, on any shell.
\<close>

function single_retry :: "tools \<Rightarrow> int \<Rightarrow> (nat \<Rightarrow> string) \<Rightarrow> nat \<Rightarrow> string option \<times> nat" where
  "single_retry tools max_retries out retry_count =
     (if int retry_count < max_retries
      then (let result = cmdsubst (out retry_count)
            in if result = []
               then (if int (Suc retry_count) < max_retries
                     then single_retry tools max_retries out (Suc retry_count)
                     else (None, Suc retry_count))
               else if check_for_errors tools result \<noteq> None
               then (if int (Suc retry_count) < max_retries
                     then single_retry tools max_retries out (Suc retry_count)
                     else (None, Suc retry_count))
               else (Some result, retry_count))
      else (None, retry_count))"
  by pat_completeness auto
termination
  by (relation "measure (\<lambda>(tools, m, out, r). nat (m - int r))") auto

declare single_retry.simps [simp del]

text \<open>
  \<open>run_single_task task_name\<close>: the return status (0 done, 1 failed, 2 all done) and the
  state. The token counts it adds to the totals are the first two lines of the token
  data, sanitised; they are added as decimal numbers, which is what \<open>$((...))\<close> does for
  a count without a leading zero (jq prints a number so).
\<close>

definition run_single_task ::
  "config \<Rightarrow> tools \<Rightarrow> iter_env \<Rightarrow> string \<Rightarrow> seq_state \<Rightarrow> int \<times> seq_state" where
  "run_single_task cfg tools env task_name s0 =
     (let s1 = s0\<lparr>s_retry_count := 0,
                  s_displayed := (count_completed_tasks cfg env, count_remaining_tasks cfg env)\<rparr>;
          current_task = (if task_name \<noteq> [] then task_name else get_next_task cfg env)
      in if current_task = [] then (2, s1)
         else
          (let branch_name = (if BRANCH_PER_TASK cfg
                              then cmdsubst (e_branch_stdout env @ echo (''ralphy/'' @ slugify current_task))
                              else [])
           in if DRY_RUN cfg then (0, s1)
              else
               (case single_retry tools (MAX_RETRIES cfg) (e_output env) 0 of
                  (None, n) \<Rightarrow> (1, s1\<lparr>s_retry_count := n, s_invocations := s_invocations s1 + n\<rparr>)
                | (Some result, n) \<Rightarrow>
                   (let parsed = cmdsubst (parse_ai_result (t_jq tools) (USE_OPENCODE cfg) result);
                        token_data = token_data_of parsed;
                        s2 = s1\<lparr>s_retry_count := n,
                                s_invocations := s_invocations s1 + Suc n,
                                s_total_input_tokens := s_total_input_tokens s1
                                   + digits_value (sanitize_tokens (line_of 1 token_data)),
                                s_total_output_tokens := s_total_output_tokens s1
                                   + digits_value (sanitize_tokens (line_of 2 token_data))\<rparr>;
                        s3 = (if PRD_SOURCE cfg = Github
                              then s2\<lparr>s_mark_calls := s_mark_calls s2 @ [current_task]\<rparr> else s2);
                        s4 = (if CREATE_PR cfg \<and> branch_name \<noteq> []
                              then s3\<lparr>s_pull_requests := s_pull_requests s3 @ [(branch_name, current_task)]\<rparr>
                              else s3)
                    in (if str_includes result promise_marker then 2 else 0, s4)))))"

text \<open>
  The \<open>while true\<close> loop of \<open>main\<close>: the environment of the call made in iteration \<open>i\<close> is
  \<open>envs i\<close>. Its first command is \<open>((iteration++))\<close>: with \<open>iteration\<close> at 0 a strict shell
  ends the script there, with status 1. The result is the exit status of the script and
  the final state; \<open>None\<close> when the loop never ends.
\<close>

partial_function (option) main_loop ::
  "config \<Rightarrow> tools \<Rightarrow> (int \<Rightarrow> iter_env) \<Rightarrow> seq_state \<Rightarrow> (int \<times> seq_state) option" where
  "main_loop cfg tools envs s =
     (if strict_errexit cfg \<and> s_iteration s = 0 then Some (1, s)
      else (let s1 = s\<lparr>s_iteration := s_iteration s + 1\<rparr>
            in case run_single_task cfg tools (envs (s_iteration s1)) [] s1 of
                 (result_code, s2) \<Rightarrow>
                   if result_code = 2 then Some (0, s2)
                   else if MAX_ITERATIONS cfg > 0 \<and> s_iteration s2 \<ge> MAX_ITERATIONS cfg
                   then Some (0, s2)
                   else main_loop cfg tools envs s2))"

declare main_loop.simps [code]

subsection \<open>monitor_progress: the step shown while the agent runs\<close>

text \<open>
  \<open>echo "$content" | grep -qE 'a|b|...'\<close> for literal alternatives, as the condition of an
  \<open>if\<close> under \<open>pipefail\<close>: some line of what echo prints contains one of them, and echo
  is not ended by SIGPIPE when grep leaves at that line (see \<open>check_for_errors\<close>; with a
  content of at most 5000 bytes that is rare, but it happens).
  Whether echo is cut, for given alternatives and content, is the parameter \<open>pcut\<close>.
\<close>

definition grep_q :: "(string list \<Rightarrow> string \<Rightarrow> bool) \<Rightarrow> string list \<Rightarrow> string \<Rightarrow> bool" where
  "grep_q pcut alts content =
     (list_ex (\<lambda>l. list_ex (\<lambda>a. str_includes l a) alts) (text_lines (echo content))
      \<and> \<not> pcut alts content)"

text \<open>\<open>tail -c 5000\<close>.\<close>

definition tail_c :: "nat \<Rightarrow> string \<Rightarrow> string" where
  "tail_c n s = drop (length s - n) s"

text \<open>One pass of the monitor's loop over the output file: the new \<open>current_step\<close>.\<close>

definition monitor_step ::
  "(string list \<Rightarrow> string \<Rightarrow> bool) \<Rightarrow> string \<Rightarrow> string \<Rightarrow> string" where
  \<open>monitor_step pcut file current_step =
     (if file = [] then current_step
      else
       (let content = cmdsubst (tail_c 5000 file)
        in if grep_q pcut [''git commit'', ''"command":"git commit''] content then ''Committing''
           else if grep_q pcut [''git add'', ''"command":"git add''] content then ''Staging''
           else if grep_q pcut [''progress.txt''] content then ''Logging''
           else if grep_q pcut [''PRD.md'', ''tasks.yaml''] content then ''Updating PRD''
           else if grep_q pcut [''lint'', ''eslint'', ''biome'', ''prettier''] content then ''Linting''
           else if grep_q pcut [''vitest'', ''jest'', ''bun test'', ''npm test'', ''pytest'', ''go test'']
                     content then ''Testing''
           else if grep_q pcut [''.test.'', ''.spec.'', ''__tests__'', ''_test.go''] content
                then ''Writing tests''
           else if grep_q pcut [''"tool":"Write"'', ''"tool":"write"'', ''"tool":"Edit"'',
                           ''"tool":"edit"'', ''"name":"write"'', ''"name":"edit"''] content
                then ''Implementing''
           else if grep_q pcut [''"tool":"Read"'', ''"tool":"read"'', ''"tool":"Glob"'',
                           ''"tool":"glob"'', ''"tool":"Grep"'', ''"tool":"grep"'',
                           ''"name":"read"'', ''"name":"glob"'', ''"name":"grep"''] content
                then ''Reading code''
           else current_step))\<close>

section \<open>cli/src/engines/base.ts\<close>

text \<open>
  The values \<open>JSON.parse\<close> produces. A number is carried as the text
  \<open>Number.prototype.toString\<close> gives it (so zero is \<open>0\<close>); an object is the list of its
  properties in enumeration order. \<open>JSON.parse\<close> itself belongs to the runtime: it is
  the parameter \<open>p\<close>, with \<open>None\<close> where it throws a \<open>SyntaxError\<close>. So do
  \<open>String.prototype.trim\<close> and \<open>String.prototype.toLowerCase\<close>, which know the Unicode
  tables: they are the parameters \<open>trim\<close> and \<open>lower\<close> of the functions that call them.
\<close>

datatype json = JNull | JBool bool | JNum string | JStr string
  | JArr "json list" | JObj "(string \<times> json) list"

datatype jsval = Undefined | Val json

datatype js_exn = SyntaxError | TypeError

type_synonym json_parse = "string \<Rightarrow> json option"

definition JSON_parse :: "json_parse \<Rightarrow> string \<Rightarrow> js_exn + json" where
  "JSON_parse p text = (case p text of None \<Rightarrow> Inl SyntaxError | Some v \<Rightarrow> Inr v)"

text \<open>Sequencing of computations that may throw, and \<open>try { body } catch { handler }\<close>.\<close>

definition bind_exn :: "js_exn + 'a \<Rightarrow> ('a \<Rightarrow> js_exn + 'b) \<Rightarrow> js_exn + 'b" where
  "bind_exn m f = (case m of Inl e \<Rightarrow> Inl e | Inr v \<Rightarrow> f v)"

definition try_catch :: "js_exn + 'a \<Rightarrow> js_exn + 'a \<Rightarrow> js_exn + 'a" where
  "try_catch body handler = (case body of Inl e \<Rightarrow> handler | Inr v \<Rightarrow> Inr v)"

text \<open>
  \<open>v.k\<close> for the property names this file reads (none of them is a property of
  \<open>Object.prototype\<close>, \<open>Array.prototype\<close> or of the wrappers of primitives): a
  \<open>TypeError\<close> on \<open>null\<close>, the own property of an object, \<open>undefined\<close> otherwise.
\<close>

definition own_prop :: "(string \<times> json) list \<Rightarrow> string \<Rightarrow> jsval" where
  "own_prop kvs k = (case map_of kvs k of None \<Rightarrow> Undefined | Some x \<Rightarrow> Val x)"

definition get_prop :: "json \<Rightarrow> string \<Rightarrow> js_exn + jsval" where
  "get_prop v k =
     (case v of
        JNull \<Rightarrow> Inl TypeError
      | JObj kvs \<Rightarrow> Inr (own_prop kvs k)
      | _ \<Rightarrow> Inr Undefined)"

text \<open>\<open>a?.k\<close> for an evaluated \<open>a\<close>.\<close>

definition opt_prop :: "jsval \<Rightarrow> string \<Rightarrow> jsval" where
  "opt_prop a k =
     (case a of
        Val (JObj kvs) \<Rightarrow> own_prop kvs k
      | _ \<Rightarrow> Undefined)"

fun truthy :: "jsval \<Rightarrow> bool" where
  "truthy Undefined = False"
| "truthy (Val JNull) = False"
| "truthy (Val (JBool b)) = b"
| "truthy (Val (JNum n)) = (n \<noteq> ''0'')"
| "truthy (Val (JStr s)) = (s \<noteq> [])"
| "truthy (Val (JArr vs)) = True"
| "truthy (Val (JObj kvs)) = True"

text \<open>\<open>a || b\<close>.\<close>

definition js_or :: "jsval \<Rightarrow> jsval \<Rightarrow> jsval" where
  "js_or a b = (if truthy a then a else b)"

subsection \<open>parseStreamJsonResult\<close>

record stream_result =
  sr_response :: jsval
  sr_inputTokens :: jsval
  sr_outputTokens :: jsval

definition task_completed :: jsval where
  "task_completed = Val (JStr ''Task completed'')"

definition js_zero :: jsval where
  "js_zero = Val (JNum ''0'')"

text \<open>The body of the \<open>try\<close> for one line, from the current values of the three
  variables.\<close>

definition result_line_try :: "json_parse \<Rightarrow> stream_result \<Rightarrow> string \<Rightarrow> js_exn + stream_result" where
  "result_line_try p acc line =
     bind_exn (JSON_parse p line) (\<lambda>parsed.
     bind_exn (get_prop parsed ''type'') (\<lambda>ty.
       if ty = Val (JStr ''result'')
       then bind_exn (get_prop parsed ''result'') (\<lambda>res.
            bind_exn (get_prop parsed ''usage'') (\<lambda>usage.
              Inr \<lparr>sr_response = js_or res task_completed,
                   sr_inputTokens = js_or (opt_prop usage ''input_tokens'') js_zero,
                   sr_outputTokens = js_or (opt_prop usage ''output_tokens'') js_zero\<rparr>))
       else Inr acc))"

fun result_loop :: "json_parse \<Rightarrow> string list \<Rightarrow> stream_result \<Rightarrow> js_exn + stream_result" where
  "result_loop p [] acc = Inr acc"
| "result_loop p (line # ls) acc =
     bind_exn (try_catch (result_line_try p acc line) (Inr acc)) (result_loop p ls)"

text \<open>\<open>output.split("\n").filter(Boolean)\<close>.\<close>

definition nonempty_lines :: "string \<Rightarrow> string list" where
  "nonempty_lines output = filter (\<lambda>l. l \<noteq> []) (split_nl output)"

definition parseStreamJsonResult :: "json_parse \<Rightarrow> string \<Rightarrow> js_exn + stream_result" where
  "parseStreamJsonResult p output =
     bind_exn (result_loop p (nonempty_lines output)
                 \<lparr>sr_response = Val (JStr []), sr_inputTokens = js_zero, sr_outputTokens = js_zero\<rparr>)
       (\<lambda>acc. Inr (acc\<lparr>sr_response := js_or (sr_response acc) task_completed\<rparr>))"

subsection \<open>checkForErrors\<close>

text \<open>The body of the \<open>try\<close> for one line: \<open>Some m\<close> when it returns \<open>m\<close> from the
  function, \<open>None\<close> when it falls through to the next line.\<close>

definition error_line_try :: "json_parse \<Rightarrow> string \<Rightarrow> js_exn + jsval option" where
  "error_line_try p line =
     bind_exn (JSON_parse p line) (\<lambda>parsed.
     bind_exn (get_prop parsed ''type'') (\<lambda>ty.
       if ty = Val (JStr ''error'')
       then bind_exn (get_prop parsed ''error'') (\<lambda>err.
            bind_exn (get_prop parsed ''message'') (\<lambda>msg.
              Inr (Some (js_or (js_or (opt_prop err ''message'') msg)
                           (Val (JStr ''Unknown error''))))))
       else Inr None))"

fun error_loop :: "json_parse \<Rightarrow> string list \<Rightarrow> js_exn + jsval option" where
  "error_loop p [] = Inr None"
| "error_loop p (line # ls) =
     bind_exn (try_catch (error_line_try p line) (Inr None))
       (\<lambda>r. case r of Some m \<Rightarrow> Inr (Some m) | None \<Rightarrow> error_loop p ls)"

text \<open>\<open>None\<close> is the \<open>null\<close> result.\<close>

definition checkForErrors :: "json_parse \<Rightarrow> string \<Rightarrow> js_exn + jsval option" where
  "checkForErrors p output = error_loop p (nonempty_lines output)"

subsection \<open>detectStepFromOutput\<close>

definition hex_digit :: "nat \<Rightarrow> char" where
  "hex_digit n = ''0123456789abcdef'' ! n"

text \<open>The text \<open>JSON.stringify\<close> writes for one character of a string.\<close>

definition escape_char :: "char \<Rightarrow> string" where
  "escape_char c =
     (if c = CHR 0x22 then [CHR 0x5C, CHR 0x22]
      else if c = CHR 0x5C then [CHR 0x5C, CHR 0x5C]
      else if c = CHR 0x08 then [CHR 0x5C, CHR ''b'']
      else if c = CHR 0x0C then [CHR 0x5C, CHR ''f'']
      else if c = CHR 0x0A then [CHR 0x5C, CHR ''n'']
      else if c = CHR 0x0D then [CHR 0x5C, CHR ''r'']
      else if c = CHR 0x09 then [CHR 0x5C, CHR ''t'']
      else if (of_char c :: nat) < 32
      then [CHR 0x5C, CHR ''u'', CHR ''0'', CHR ''0'',
            hex_digit ((of_char c :: nat) div 16), hex_digit ((of_char c :: nat) mod 16)]
      else [c])"

definition quote_string :: "string \<Rightarrow> string" where
  "quote_string s = CHR 0x22 # concat (map escape_char s) @ [CHR 0x22]"

fun commas :: "string list \<Rightarrow> string" where
  "commas [] = []"
| "commas [x] = x"
| "commas (x # y # ys) = x @ CHR '','' # commas (y # ys)"

text \<open>\<open>JSON.stringify(v)\<close> for a value that came out of \<open>JSON.parse\<close>.\<close>

fun JSON_stringify :: "json \<Rightarrow> string" where
  "JSON_stringify JNull = ''null''"
| "JSON_stringify (JBool b) = (if b then ''true'' else ''false'')"
| "JSON_stringify (JNum n) = n"
| "JSON_stringify (JStr s) = quote_string s"
| "JSON_stringify (JArr vs) = CHR ''['' # commas (map JSON_stringify vs) @ '']''"
| "JSON_stringify (JObj kvs) =
     CHR ''{'' # commas (map (\<lambda>kv. quote_string (fst kv) @ CHR '':'' # JSON_stringify (snd kv)) kvs)
       @ ''}''"

text \<open>
  \<open>parsed.k?.toLowerCase()\<close>: \<open>undefined\<close> for a missing or \<open>null\<close> property, the
  lower-cased text of a string, a \<open>TypeError\<close> for any other value (it has no callable
  \<open>toLowerCase\<close>). The empty text stands for \<open>undefined\<close> too: the code only uses the
  result under \<open>||\<close>, where both are false.
\<close>

definition lower_prop :: "(string \<Rightarrow> string) \<Rightarrow> json \<Rightarrow> string \<Rightarrow> js_exn + string" where
  "lower_prop lower parsed k =
     bind_exn (get_prop parsed k) (\<lambda>v.
       case v of
         Undefined \<Rightarrow> Inr []
       | Val JNull \<Rightarrow> Inr []
       | Val (JStr s) \<Rightarrow> Inr (lower s)
       | Val _ \<Rightarrow> Inl TypeError)"

text \<open>
  \<open>parsed.tool?.toLowerCase() || parsed.name?.toLowerCase() ||
  parsed.tool_name?.toLowerCase() || ""\<close>: an operand is evaluated only when every
  operand before it was false.
\<close>

definition tool_name_of :: "(string \<Rightarrow> string) \<Rightarrow> json \<Rightarrow> js_exn + string" where
  "tool_name_of lower parsed =
     bind_exn (lower_prop lower parsed ''tool'') (\<lambda>a.
       if a \<noteq> [] then Inr a
       else bind_exn (lower_prop lower parsed ''name'') (\<lambda>b.
         if b \<noteq> [] then Inr b
         else lower_prop lower parsed ''tool_name''))"

text \<open>The chain of tests on \<open>content\<close>, \<open>command\<close> and \<open>toolName\<close>; \<open>None\<close> is \<open>null\<close>.\<close>

definition classify_step :: "string \<Rightarrow> string \<Rightarrow> string \<Rightarrow> string option" where
  "classify_step content command toolName =
     (if str_includes content ''git commit'' \<or> str_includes command ''git commit''
      then Some ''Committing''
      else if str_includes content ''git add'' \<or> str_includes command ''git add''
      then Some ''Staging''
      else if str_includes content ''lint'' \<or> str_includes content ''eslint''
              \<or> str_includes content ''biome'' \<or> str_includes content ''prettier''
      then Some ''Linting''
      else if str_includes content ''vitest'' \<or> str_includes content ''jest''
              \<or> str_includes content ''bun test'' \<or> str_includes content ''npm test''
              \<or> str_includes content ''pytest'' \<or> str_includes content ''go test''
      then Some ''Testing''
      else if str_includes content ''.test.'' \<or> str_includes content ''.spec.''
              \<or> str_includes content ''__tests__'' \<or> str_includes content ''_test.go''
      then Some ''Writing tests''
      else if toolName = ''write'' \<or> toolName = ''edit''
      then Some ''Implementing''
      else if toolName = ''read'' \<or> toolName = ''glob'' \<or> toolName = ''grep''
      then Some ''Reading code''
      else None)"

definition detect_try ::
  "json_parse \<Rightarrow> (string \<Rightarrow> string) \<Rightarrow> string \<Rightarrow> js_exn + string option" where
  "detect_try p lower trimmed =
     bind_exn (JSON_parse p trimmed) (\<lambda>parsed.
     bind_exn (tool_name_of lower parsed) (\<lambda>toolName.
     bind_exn (lower_prop lower parsed ''command'') (\<lambda>command.
       Inr (classify_step (lower (JSON_stringify parsed)) command toolName))))"

definition detectStepFromOutput ::
  "json_parse \<Rightarrow> (string \<Rightarrow> string) \<Rightarrow> (string \<Rightarrow> string) \<Rightarrow> string
     \<Rightarrow> js_exn + string option" where
  "detectStepFromOutput p trim lower line =
     (let trimmed = trim line
      in if \<not> prefix ''{'' trimmed then Inr None
         else try_catch (detect_try p lower trimmed) (Inr None))"

section \<open>cli/src/tasks/markdown-folder.ts\<close>

text \<open>
  The files are a map from path to content; a path that cannot be read is not in the
  map, and a file that was read can be written. \<open>join\<close> of \<open>node:path\<close> is a parameter.
\<close>

type_synonym files = "string \<rightharpoonup> string"

datatype ts_error = InvalidTaskId string | ReadError string

text \<open>\<open>id.substring(0, id.lastIndexOf(":"))\<close>, when there is a colon.\<close>

definition before_last :: "char \<Rightarrow> string \<Rightarrow> string" where
  "before_last c s = rev (drop 1 (dropWhile (\<lambda>d. d \<noteq> c) (rev s)))"

definition is_space :: "char \<Rightarrow> bool" where
  "is_space c = (c \<in> set [CHR 0x09, CHR 0x0A, CHR 0x0B, CHR 0x0C, CHR 0x0D, CHR '' ''])"

text \<open>
  \<open>Number.parseInt(s, 10)\<close> on ASCII text: white space, an optional sign, then the
  longest run of digits; \<open>None\<close> is \<open>NaN\<close>. (The value is exact here; the double the
  runtime returns differs from it only beyond \<open>2^53\<close>, far above the length of any
  array.) Like \<open>join\<close>, \<open>Number.parseInt\<close> is a parameter of the functions below, and this
  is the instance the sample inputs use.
\<close>

definition parseInt10 :: "string \<Rightarrow> int option" where
  "parseInt10 s =
     (let t = dropWhile is_space s;
          neg = (case t of [] \<Rightarrow> False | c # _ \<Rightarrow> c = CHR ''-'');
          u = (case t of [] \<Rightarrow> [] | c # cs \<Rightarrow> if c = CHR ''-'' \<or> c = CHR ''+'' then cs else t);
          ds = takeWhile is_digit u
      in if ds = [] then None
         else Some (if neg then - digits_value ds else digits_value ds))"

definition parseTaskId ::
  "(string \<Rightarrow> string \<Rightarrow> string) \<Rightarrow> (string \<Rightarrow> int option) \<Rightarrow> string \<Rightarrow> string
     \<Rightarrow> ts_error + string \<times> int option" where
  "parseTaskId join parseInt folderPath ident =
     (if CHR '':'' \<notin> set ident then Inl (InvalidTaskId ident)
      else Inr (join folderPath (before_last CHR '':'' ident),
                parseInt (after_last CHR '':'' ident)))"

text \<open>\<open>line.replace(/^- \[ \] /, "- [x] ")\<close>.\<close>

definition replace_box :: "string \<Rightarrow> string" where
  "replace_box l = (if prefix box_open l then box_done @ drop (length box_open) l else l)"

text \<open>\<open>markComplete(id)\<close>: how the call ends (\<open>Inl\<close>: the error it throws) and the files
  after it.\<close>

definition markComplete ::
  "(string \<Rightarrow> string \<Rightarrow> string) \<Rightarrow> (string \<Rightarrow> int option) \<Rightarrow> string \<Rightarrow> string \<Rightarrow> files
     \<Rightarrow> (ts_error + unit) \<times> files" where
  "markComplete join parseInt folderPath ident fs =
     (case parseTaskId join parseInt folderPath ident of
        Inl e \<Rightarrow> (Inl e, fs)
      | Inr (filePath, lineNumber) \<Rightarrow>
          (case fs filePath of
             None \<Rightarrow> (Inl (ReadError filePath), fs)
           | Some content \<Rightarrow>
               (let lines = split_nl content
                in case lineNumber of
                     None \<Rightarrow> (Inr (), fs)
                   | Some n \<Rightarrow>
                       (let lineIndex = n - 1
                        in if 0 \<le> lineIndex \<and> lineIndex < int (length lines)
                           then (Inr (), fs(filePath \<mapsto>
                                   join_nl (lines[nat lineIndex := replace_box (lines ! nat lineIndex)])))
                           else (Inr (), fs)))))"

section \<open>Reference definitions and sample inputs\<close>

text \<open>
  The batch plan in the words of the specification: the list cut into consecutive groups
  of \<open>n\<close>, the last one possibly shorter.
\<close>

function spec_batches :: "nat \<Rightarrow> 'a list \<Rightarrow> 'a list list" where
  "spec_batches n xs = (if n = 0 \<or> xs = [] then [] else take n xs # spec_batches n (drop n xs))"
  by pat_completeness auto
termination
  by (relation "measure (\<lambda>(n, xs). length xs)") auto

declare spec_batches.simps [simp del]


text \<open>The value of \<open>$worktree_dir\<close> in \<open>run_parallel_agent\<close>: the path its \<open>-d\<close> test
  looks at.\<close>

definition worktree_dir_of :: "config \<Rightarrow> agent_env \<Rightarrow> string \<Rightarrow> nat \<Rightarrow> string" where
  "worktree_dir_of cfg env task_name agent_num =
     before_first CHR ''|'' (create_agent_worktree cfg env task_name agent_num)"


text \<open>
  A parallel run on bash 3.2 over a markdown file with seven pending tasks and three
  agents at a time. Git behaves as git does: \<open>git worktree add\<close> creates the directory
  \<open>/tmp/w/agent-N\<close> and prints \<open>HEAD is now at ...\<close> on standard output. Every agent
  would answer at once. The same world with agents that print nothing.
\<close>

definition cfg7 :: config where
  "cfg7 = \<lparr>USE_OPENCODE = False, DRY_RUN = False, MAX_ITERATIONS = 0, MAX_RETRIES = 3,
     BRANCH_PER_TASK = False, CREATE_PR = False, MAX_PARALLEL = 3, PRD_SOURCE = Markdown,
     WORKTREE_BASE = ''/tmp/w'', strict_errexit = False\<rparr>"

definition w7 :: world where
  "w7 = \<lparr>w_jq = (\<lambda>f i. ([], False)), w_gnu_sed = True, w_sed_rx = (\<lambda>t ls. Inr ls),
     w_yq_status = (\<lambda>t. 0), w_listed = [],
     w_agent = (\<lambda>n. \<lparr>git_stdout = ''HEAD is now at 1a2b3c4 Initial commit'' @ [NL],
                    is_dir = (\<lambda>p. prefix ''/tmp/w/agent-'' p),
                    agent_output = (\<lambda>k. ''ok''), agent_exit = (\<lambda>k. 0)\<rparr>)\<rparr>"








text \<open>The response a caller of \<open>parse_ai_result\<close> reads.\<close>

definition returned_response :: "jq \<Rightarrow> bool \<Rightarrow> string \<Rightarrow> string" where
  "returned_response jq use_opencode result =
     response_of (cmdsubst (parse_ai_result jq use_opencode result))"





text \<open>A folder with one markdown file, and a \<open>join\<close> that puts a slash between folder and
  file name.\<close>

definition slash_join :: "string \<Rightarrow> string \<Rightarrow> string" where
  "slash_join a b = a @ CHR ''/'' # b"

definition files0 :: files where
  "files0 = [''tasks/a.md'' \<mapsto> join_nl [''# Tasks'', ''- [ ] one'', ''- [ ] two'']]"

text \<open>A line carries a result: it parses to a record whose \<open>type\<close> is \<open>"result"\<close> and whose
  \<open>result\<close> is a true value (for a string: not empty). A line is parseable: \<open>JSON.parse\<close>
  does not throw on it.\<close>

definition carries_result :: "json_parse \<Rightarrow> string \<Rightarrow> bool" where
  "carries_result p line =
     (case p line of
        Some (JObj kvs) \<Rightarrow> own_prop kvs ''type'' = Val (JStr ''result'') \<and> truthy (own_prop kvs ''result'')
      | _ \<Rightarrow> False)"

definition parseable :: "json_parse \<Rightarrow> string \<Rightarrow> bool" where
  "parseable p line = (p line \<noteq> None)"

text \<open>
  A sample \<open>JSON.parse\<close>, defined on the records the sample outputs contain; \<open>trim\<close> and
  \<open>toLowerCase\<close> as they act on ASCII text, which is all the samples contain; and outputs:
  one without a result record, and one with a result record given twice, once with a
  line that is not JSON and an empty line in between.
\<close>

definition parse_demo :: json_parse where
  \<open>parse_demo = map_of
     [(''{"type":"system","subtype":"init"}'',
         JObj [(''type'', JStr ''system''), (''subtype'', JStr ''init'')]),
      (''{"type":"result","result":"X","usage":{"input_tokens":5,"output_tokens":7}}'',
         JObj [(''type'', JStr ''result''), (''result'', JStr ''X''),
               (''usage'', JObj [(''input_tokens'', JNum ''5''), (''output_tokens'', JNum ''7'')])]),
      (''{"type":"error","error":{"message":"overloaded"}}'',
         JObj [(''type'', JStr ''error''), (''error'', JObj [(''message'', JStr ''overloaded'')])]),
      (''{"tool":"read","file_path":"PRD.md"}'',
         JObj [(''tool'', JStr ''read''), (''file_path'', JStr ''PRD.md'')]),
      (''{"tool":"read","name":5}'',
         JObj [(''tool'', JStr ''read''), (''name'', JNum ''5'')]),
      (''{"tool":5,"name":"read"}'',
         JObj [(''tool'', JNum ''5''), (''name'', JStr ''read'')]),
      (''{"tool":"Bash","command":"git commit -m wip"}'',
         JObj [(''tool'', JStr ''Bash''), (''command'', JStr ''git commit -m wip'')]),
      (''{"tool":"edit","file_path":"src/app.test.ts"}'',
         JObj [(''tool'', JStr ''edit''), (''file_path'', JStr ''src/app.test.ts'')])]\<close>

definition trim_ascii :: "string \<Rightarrow> string" where
  "trim_ascii s = rev (dropWhile is_space (rev (dropWhile is_space s)))"

definition out_no_result :: string where
  \<open>out_no_result = join_nl [''starting up'', ''{"type":"system","subtype":"init"}'']\<close>

definition out_result :: string where
  \<open>out_result = join_nl [''{"type":"system","subtype":"init"}'', ''not json'',
     ''{"type":"result","result":"X","usage":{"input_tokens":5,"output_tokens":7}}'', []]\<close>

definition out_result_clean :: string where
  \<open>out_result_clean = join_nl [''{"type":"system","subtype":"init"}'',
     ''{"type":"result","result":"X","usage":{"input_tokens":5,"output_tokens":7}}'']\<close>

text \<open>
  Step detection as a table. The three texts the tests of \<open>detectStepFromOutput\<close> read
  (\<open>content\<close>, \<open>command\<close>, \<open>toolName\<close>), computed as the function computes them; the first
  entry of an ordered table of tests that holds; the order of \<open>detectStepFromOutput\<close>, the
  order the specification gives (with the tracker file third), and the order of the
  shell's \<open>monitor_progress\<close>.
\<close>

type_synonym step_input = "string \<times> string \<times> string"

definition step_input_of ::
  "json_parse \<Rightarrow> (string \<Rightarrow> string) \<Rightarrow> string \<Rightarrow> js_exn + step_input" where
  "step_input_of p lower trimmed =
     bind_exn (JSON_parse p trimmed) (\<lambda>parsed.
     bind_exn (tool_name_of lower parsed) (\<lambda>toolName.
     bind_exn (lower_prop lower parsed ''command'') (\<lambda>command.
       Inr (lower (JSON_stringify parsed), command, toolName))))"

fun first_match :: "(('a \<Rightarrow> bool) \<times> 'b) list \<Rightarrow> 'a \<Rightarrow> 'b option" where
  "first_match [] x = None"
| "first_match (c # cs) x = (if fst c x then Some (snd c) else first_match cs x)"

definition mentions :: "string list \<Rightarrow> string \<Rightarrow> bool" where
  "mentions kws text = list_ex (str_includes text) kws"

definition ts_order :: "((step_input \<Rightarrow> bool) \<times> string) list" where
  "ts_order =
     [(\<lambda>(content, command, tool). mentions [''git commit''] content \<or> mentions [''git commit''] command,
         ''Committing''),
      (\<lambda>(content, command, tool). mentions [''git add''] content \<or> mentions [''git add''] command,
         ''Staging''),
      (\<lambda>(content, command, tool). mentions [''lint'', ''eslint'', ''biome'', ''prettier''] content,
         ''Linting''),
      (\<lambda>(content, command, tool).
           mentions [''vitest'', ''jest'', ''bun test'', ''npm test'', ''pytest'', ''go test''] content,
         ''Testing''),
      (\<lambda>(content, command, tool). mentions [''.test.'', ''.spec.'', ''__tests__'', ''_test.go''] content,
         ''Writing tests''),
      (\<lambda>(content, command, tool). tool \<in> set [''write'', ''edit''], ''Implementing''),
      (\<lambda>(content, command, tool). tool \<in> set [''read'', ''glob'', ''grep''], ''Reading code'')]"

definition spec_order :: "((step_input \<Rightarrow> bool) \<times> string) list" where
  "spec_order =
     take 2 ts_order
     @ [(\<lambda>(content, command, tool). mentions [''prd.md'', ''tasks.yaml'', ''progress.txt''] content,
           ''Updating tracker'')]
     @ drop 2 ts_order"

definition spec_detectStep ::
  "json_parse \<Rightarrow> (string \<Rightarrow> string) \<Rightarrow> (string \<Rightarrow> string) \<Rightarrow> string \<Rightarrow> js_exn + string option" where
  "spec_detectStep p trim lower line =
     (if \<not> prefix ''{'' (trim line) then Inr None
      else case step_input_of p lower (trim line) of
             Inl e \<Rightarrow> Inr None
           | Inr x \<Rightarrow> Inr (first_match spec_order x))"

text \<open>
  When the tool name or the command of a parsed record cannot be computed: the first of
  \<open>tool\<close>, \<open>name\<close>, \<open>tool_name\<close> that is not missing, \<open>null\<close> or a string that lower-cases
  to the empty string is not a string at all, or \<open>command\<close> is neither missing, \<open>null\<close>
  nor a string.
\<close>

definition falsy_text :: "(string \<Rightarrow> string) \<Rightarrow> jsval \<Rightarrow> bool" where
  "falsy_text lower v =
     (case v of Undefined \<Rightarrow> True | Val JNull \<Rightarrow> True | Val (JStr s) \<Rightarrow> lower s = [] | Val _ \<Rightarrow> False)"

definition no_text :: "jsval \<Rightarrow> bool" where
  "no_text v = (case v of Undefined \<Rightarrow> False | Val JNull \<Rightarrow> False | Val (JStr s) \<Rightarrow> False | Val _ \<Rightarrow> True)"

definition tool_fields_throw :: "(string \<Rightarrow> string) \<Rightarrow> (string \<times> json) list \<Rightarrow> bool" where
  "tool_fields_throw lower kvs =
     (no_text (own_prop kvs ''tool'')
      \<or> (falsy_text lower (own_prop kvs ''tool'') \<and>
          (no_text (own_prop kvs ''name'')
           \<or> (falsy_text lower (own_prop kvs ''name'') \<and> no_text (own_prop kvs ''tool_name''))))
      \<or> no_text (own_prop kvs ''command''))"

definition fields_throw :: "(string \<Rightarrow> string) \<Rightarrow> json \<Rightarrow> bool" where
  "fields_throw lower v =
     (case v of JNull \<Rightarrow> True | JObj kvs \<Rightarrow> tool_fields_throw lower kvs | _ \<Rightarrow> False)"

definition sh_order ::
  "(string list \<Rightarrow> string \<Rightarrow> bool) \<Rightarrow> ((string \<Rightarrow> bool) \<times> string) list" where
  \<open>sh_order pcut =
     [(grep_q pcut [''git commit'', ''"command":"git commit''], ''Committing''),
      (grep_q pcut [''git add'', ''"command":"git add''], ''Staging''),
      (grep_q pcut [''progress.txt''], ''Logging''),
      (grep_q pcut [''PRD.md'', ''tasks.yaml''], ''Updating PRD''),
      (grep_q pcut [''lint'', ''eslint'', ''biome'', ''prettier''], ''Linting''),
      (grep_q pcut [''vitest'', ''jest'', ''bun test'', ''npm test'', ''pytest'', ''go test''], ''Testing''),
      (grep_q pcut [''.test.'', ''.spec.'', ''__tests__'', ''_test.go''], ''Writing tests''),
      (grep_q pcut [''"tool":"Write"'', ''"tool":"write"'', ''"tool":"Edit"'', ''"tool":"edit"'',
               ''"name":"write"'', ''"name":"edit"''], ''Implementing''),
      (grep_q pcut [''"tool":"Read"'', ''"tool":"read"'', ''"tool":"Glob"'', ''"tool":"glob"'',
               ''"tool":"Grep"'', ''"tool":"grep"'', ''"name":"read"'', ''"name":"glob"'',
               ''"name":"grep"''], ''Reading code'')]\<close>

definition tracker_line :: string where
  \<open>tracker_line = ''{"tool":"read","file_path":"PRD.md"}''\<close>

definition commit_line :: string where
  \<open>commit_line = ''{"tool":"Bash","command":"git commit -m wip"}''\<close>

definition edit_test_line :: string where
  \<open>edit_test_line = ''{"tool":"edit","file_path":"src/app.test.ts"}''\<close>

text \<open>Pipes that are never cut.\<close>

definition no_cut :: "string list \<Rightarrow> string \<Rightarrow> bool" where
  "no_cut alts content = False"


section \<open>Properties\<close>

subsection \<open>The batch plan\<close>

lemma spec_batches_Nil [simp]: "spec_batches n [] = []"
  by (simp add: spec_batches.simps)

















text \<open>A strict shell ends a parallel run at the first command of the batch loop, before any
  agent is launched.\<close>

lemma strict_shell_ends_parallel_run:
  assumes "strict_errexit cfg"
    and "filter (\<lambda>t. t \<noteq> []) (get_all_tasks cfg w (task_store s)) \<noteq> []"
  shows "run_parallel_tasks cfg w s = Some (Exits 1, s)"
proof -
  let ?tasks = "filter (\<lambda>t. t \<noteq> []) (get_all_tasks cfg w (task_store s))"
  have "0 < int (length ?tasks)" using assms(2) by simp
  then have "batch_loop cfg w ?tasks 0 s = Some (Exits 1, s)"
    using assms(1) by (subst batch_loop.simps) simp
  then show ?thesis using assms(2) by (simp add: run_parallel_tasks_def Let_def)
qed




subsection \<open>A parallel agent whose worktree is missing\<close>

text \<open>
  C8. When the worktree directory is not there after \<open>create_agent_worktree\<close>, the run
  ends with status \<open>failed\<close> and the agent has not been invoked.
\<close>

theorem worktree_failure_never_invokes:
  assumes "\<not> is_dir env (worktree_dir_of cfg env task_name agent_num)"
  shows "final_status (run_parallel_agent cfg jq env task_name agent_num) = Failed \<and>
         invocations (run_parallel_agent cfg jq env task_name agent_num) = 0"
  using assms by (simp add: run_parallel_agent_def worktree_dir_of_def Let_def final_status_def)

theorem worktree_failure_witness:
  "\<not> is_dir (w_agent w7 1\<lparr>is_dir := (\<lambda>p. False)\<rparr>)
       (worktree_dir_of cfg7 (w_agent w7 1\<lparr>is_dir := (\<lambda>p. False)\<rparr>) ''a'' 1) \<and>
   final_status (run_parallel_agent cfg7 (w_jq w7) (w_agent w7 1\<lparr>is_dir := (\<lambda>p. False)\<rparr>) ''a'' 1) = Failed \<and>
   invocations (run_parallel_agent cfg7 (w_jq w7) (w_agent w7 1\<lparr>is_dir := (\<lambda>p. False)\<rparr>) ''a'' 1) = 0"
  using worktree_failure_never_invokes
          [of "w_agent w7 1\<lparr>is_dir := (\<lambda>p. False)\<rparr>" cfg7 "''a''" 1 "w_jq w7"]
  by simp

text \<open>When git prints nothing on standard output and the base directory has no \<open>|\<close> in
  its name, that path is the directory of the agent's worktree.\<close>

lemma cmdsubst_keeps_prefix:
  "c \<noteq> NL \<Longrightarrow> cmdsubst (xs @ c # ys) = xs @ c # cmdsubst ys"
  by (simp add: cmdsubst_def dropWhile_append)

lemma before_first_stop:
  "c \<notin> set xs \<Longrightarrow> before_first c (xs @ c # ys) = xs"
  by (induction xs) (auto simp: before_first_def)

lemma show_nat_digits: "set (show_nat n) \<subseteq> set digit_chars"
proof (induction n rule: show_nat.induct)
  case (1 n)
  have d: "\<And>k. k < 10 \<Longrightarrow> digit_char k \<in> set digit_chars"
    by (simp add: digit_char_def digit_chars_def nth_Cons' )
  show ?case
  proof (cases "n < 10")
    case True
    then show ?thesis using d[of n] by (subst show_nat.simps) simp
  next
    case False
    then show ?thesis using 1 d[of "n mod 10"] by (subst show_nat.simps) simp
  qed
qed

lemma worktree_dir_of_silent_git:
  assumes "git_stdout env = []" and "CHR ''|'' \<notin> set (WORKTREE_BASE cfg)"
  shows "worktree_dir_of cfg env task_name agent_num
           = WORKTREE_BASE cfg @ ''/agent-'' @ show_nat agent_num"
proof -
  let ?d = "WORKTREE_BASE cfg @ ''/agent-'' @ show_nat agent_num"
  have "CHR ''|'' \<notin> set (show_nat agent_num)"
    using show_nat_digits[of agent_num] by (auto simp: digit_chars_def)
  then have nd: "CHR ''|'' \<notin> set ?d" using assms(2) by simp
  have "create_agent_worktree cfg env task_name agent_num
          = ?d @ CHR ''|'' # cmdsubst (''ralphy/agent-'' @ show_nat agent_num @ ''-'' @ slugify task_name @ [NL])"
    using cmdsubst_keeps_prefix[of "CHR ''|''" ?d]
    by (simp add: create_agent_worktree_def Let_def assms(1) NL_def)
  then show ?thesis
    using before_first_stop[OF nd] by (simp add: worktree_dir_of_def)
qed

text \<open>
  When \<open>git worktree add\<close> succeeds it prints \<open>HEAD is now at ...\<close> on standard output, and
  that text is captured with the path: the path the \<open>-d\<close> test looks at then starts with
  the letter H. It is the path of the worktree only when git printed nothing, which is
  when it failed.
\<close>

lemma worktree_dir_of_git_output:
  assumes "git_stdout env = CHR ''H'' # g"
  shows "\<exists>r. worktree_dir_of cfg env task_name agent_num = CHR ''H'' # r"
proof -
  let ?d = "WORKTREE_BASE cfg @ ''/agent-'' @ show_nat agent_num"
  let ?b = "''ralphy/agent-'' @ show_nat agent_num @ ''-'' @ slugify task_name @ [NL]"
  have "create_agent_worktree cfg env task_name agent_num = cmdsubst ((CHR ''H'' # g @ ?d) @ CHR ''|'' # ?b)"
    by (simp add: create_agent_worktree_def Let_def assms)
  also have "\<dots> = (CHR ''H'' # g @ ?d) @ CHR ''|'' # cmdsubst ?b"
    by (rule cmdsubst_keeps_prefix) (simp add: NL_def)
  finally have "create_agent_worktree cfg env task_name agent_num
                  = CHR ''H'' # (g @ ?d @ CHR ''|'' # cmdsubst ?b)" by simp
  then show ?thesis by (simp add: worktree_dir_of_def before_first_def)
qed

lemma worktree_missing_w7:
  "\<not> is_dir (w_agent w7 n) (worktree_dir_of cfg (w_agent w7 n) t m)"
proof -
  obtain r where "worktree_dir_of cfg (w_agent w7 n) t m = CHR ''H'' # r"
    using worktree_dir_of_git_output[of "w_agent w7 n" "''EAD is now at 1a2b3c4 Initial commit'' @ [NL]" cfg t m]
    by (auto simp: w7_def)
  then show ?thesis by (simp add: w7_def)
qed

subsection \<open>The sequential orchestrator\<close>





text \<open>A strict shell ends the sequential loop at its first command, before any attempt.\<close>

lemma strict_shell_ends_sequential_run:
  "strict_errexit cfg \<Longrightarrow> s_iteration s = 0 \<Longrightarrow> main_loop cfg tools envs s = Some (1, s)"
  by (subst main_loop.simps) simp






subsection \<open>Lines of a file\<close>

lemma split_nl_ne [simp]: "split_nl s \<noteq> []"
  by (induction s) (auto split: list.splits)

lemma join_split [simp]: "join_nl (split_nl s) = s"
proof (induction s)
  case Nil show ?case by simp
next
  case (Cons c cs)
  obtain l ls where sp: "split_nl cs = l # ls" by (cases "split_nl cs") auto
  with Cons show ?case by (cases ls) (auto)
qed

lemma split_nl_no_nl: "l \<in> set (split_nl s) \<Longrightarrow> NL \<notin> set l"
proof (induction s arbitrary: l)
  case Nil then show ?case by simp
next
  case (Cons c cs)
  obtain m ms where sp: "split_nl cs = m # ms" by (cases "split_nl cs") auto
  with Cons show ?case by (auto split: if_splits)
qed

lemma split_nl_line: "NL \<notin> set l \<Longrightarrow> split_nl (l @ NL # s) = l # split_nl s"
  by (induction l) (auto split: list.splits)

lemma split_nl_last: "NL \<notin> set l \<Longrightarrow> split_nl l = [l]"
  by (induction l) (auto split: list.splits)

lemma split_join: "ls \<noteq> [] \<Longrightarrow> \<forall>l \<in> set ls. NL \<notin> set l \<Longrightarrow> split_nl (join_nl ls) = ls"
proof (induction ls rule: join_nl.induct)
  case 1 then show ?case by simp
next
  case (2 l) then show ?case by (simp add: split_nl_last)
next
  case (3 l m ls)
  then show ?case by (simp add: split_nl_line)
qed

lemma replace_box_idem: "replace_box (replace_box l) = replace_box l"
  by (simp add: replace_box_def box_open_def box_done_def)

lemma replace_box_no_nl: "NL \<notin> set l \<Longrightarrow> NL \<notin> set (replace_box l)"
  by (auto simp: replace_box_def box_done_def NL_def dest: in_set_dropD)

lemma split_updated:
  "split_nl (join_nl ((split_nl c)[i := replace_box (split_nl c ! i)])) =
     (split_nl c)[i := replace_box (split_nl c ! i)]"
proof (cases "i < length (split_nl c)")
  case False then show ?thesis by (simp add: not_less list_update_beyond)
next
  case True
  have "\<forall>l \<in> set ((split_nl c)[i := replace_box (split_nl c ! i)]). NL \<notin> set l"
  proof
    fix l assume "l \<in> set ((split_nl c)[i := replace_box (split_nl c ! i)])"
    then have "l = replace_box (split_nl c ! i) \<or> l \<in> set (split_nl c)"
      by (auto dest: set_update_subset_insert[THEN subsetD])
    then show "NL \<notin> set l"
    proof
      assume "l = replace_box (split_nl c ! i)"
      moreover have "NL \<notin> set (split_nl c ! i)"
        using True by (intro split_nl_no_nl[of _ c]) simp
      ultimately show ?thesis by (simp add: replace_box_no_nl)
    next
      assume "l \<in> set (split_nl c)"
      then show ?thesis by (rule split_nl_no_nl)
    qed
  qed
  then show ?thesis by (intro split_join) simp_all
qed

lemma parseTaskId_a2: "parseTaskId slash_join parseInt10 ''tasks'' ''a.md:2'' = Inr (''tasks/a.md'', Some 2)"
  by (simp add: parseTaskId_def slash_join_def before_last_def after_last_def parseInt10_def
        is_space_def is_digit_def digit_chars_def digits_value_def digit_value_def Let_def)

lemma parseTaskId_a1: "parseTaskId slash_join parseInt10 ''tasks'' ''a.md:1'' = Inr (''tasks/a.md'', Some 1)"
  by (simp add: parseTaskId_def slash_join_def before_last_def after_last_def parseInt10_def
        is_space_def is_digit_def digit_chars_def digits_value_def digit_value_def Let_def)

lemma split_files0: "split_nl (join_nl [''# Tasks'', ''- [ ] one'', ''- [ ] two''])
    = [''# Tasks'', ''- [ ] one'', ''- [ ] two'']"
  by (simp add: NL_def)


subsection \<open>MarkdownFolderTaskSource.markComplete\<close>

text \<open>
  Calling \<open>markComplete(id)\<close> of \<open>markdown-folder.ts\<close> twice in succession leaves the files
  as one call does, for every id, folder and state of the files (also when the call
  throws).
\<close>

lemma markComplete_idempotent:
  "snd (markComplete join parseInt folderPath ident (snd (markComplete join parseInt folderPath ident fs)))
     = snd (markComplete join parseInt folderPath ident fs)"
proof (cases "parseTaskId join parseInt folderPath ident")
  case (Inl e)
  then show ?thesis by (simp add: markComplete_def)
next
  case (Inr r)
  obtain filePath lineNumber where r: "r = (filePath, lineNumber)" by (cases r)
  show ?thesis
  proof (cases "fs filePath")
    case None
    with Inr r show ?thesis by (simp add: markComplete_def)
  next
    case (Some content)
    show ?thesis
    proof (cases lineNumber)
      case None
      with Inr r Some show ?thesis by (simp add: markComplete_def Let_def)
    next
      case (Some n)
      show ?thesis
      proof (cases "0 \<le> n - 1 \<and> n - 1 < int (length (split_nl content))")
        case False
        have "markComplete join parseInt folderPath ident fs = (Inr (), fs)"
          using Inr r \<open>fs filePath = Some content\<close> Some False
          by (auto simp: markComplete_def Let_def)
        then show ?thesis by simp
      next
        case True
        let ?ls = "split_nl content"
        let ?i = "nat (n - 1)"
        let ?c' = "join_nl (?ls[?i := replace_box (?ls ! ?i)])"
        have first: "markComplete join parseInt folderPath ident fs = (Inr (), fs(filePath \<mapsto> ?c'))"
          using Inr r \<open>fs filePath = Some content\<close> Some True
          by (simp add: markComplete_def Let_def)
        have sp: "split_nl ?c' = ?ls[?i := replace_box (?ls ! ?i)]" by (rule split_updated)
        have il: "?i < length ?ls" using True by auto
        have "markComplete join parseInt folderPath ident (fs(filePath \<mapsto> ?c')) = (Inr (), fs(filePath \<mapsto> ?c'))"
          using Inr r Some True il
          by (simp add: markComplete_def Let_def sp replace_box_idem)
        with first show ?thesis by simp
      qed
    qed
  qed
qed

lemma markComplete_idempotent_sample:
  "snd (markComplete slash_join parseInt10 ''tasks'' ''a.md:2''
          (snd (markComplete slash_join parseInt10 ''tasks'' ''a.md:2'' files0)))
     = snd (markComplete slash_join parseInt10 ''tasks'' ''a.md:2'' files0) \<and>
   snd (markComplete slash_join parseInt10 ''tasks'' ''a.md:2'' files0) ''tasks/a.md''
     = Some (join_nl [''# Tasks'', ''- [x] one'', ''- [ ] two''])"
proof -
  have "snd (markComplete slash_join parseInt10 ''tasks'' ''a.md:2'' files0) ''tasks/a.md''
     = Some (join_nl [''# Tasks'', ''- [x] one'', ''- [ ] two''])"
    by (simp add: markComplete_def parseTaskId_a2 files0_def NL_def replace_box_def
        box_open_def box_done_def Let_def)
  with markComplete_idempotent[of slash_join parseInt10 "''tasks''" "''a.md:2''" files0]
  show ?thesis by blast
qed

text \<open>
  The shell's \<open>mark_task_complete_markdown\<close> is idempotent too, for a title that sed
  matches literally.
\<close>

lemma sed_mark_line_idem:
  "sed_mark_line task (sed_mark_line task l) = sed_mark_line task l"
  by (simp add: sed_mark_line_def box_open_def box_done_def)

lemma mark_task_complete_markdown_idem:
  assumes "sed_plain task"
  shows "\<exists>ls'. mark_task_complete_markdown gnu sed_rx task ls = Inr ls' \<and>
               mark_task_complete_markdown gnu sed_rx task ls' = Inr ls'"
  using assms by (simp add: mark_task_complete_markdown_def sed_mark_line_idem)

text \<open>The pattern has no end: the call for one title also rewrites the line of a longer
  title that starts with it.\<close>

lemma sed_mark_line_prefix:
  "sed_mark_line ''Add login'' ''- [ ] Add login page'' = ''- [x] Add login page''"
  by (simp add: sed_mark_line_def box_open_def box_done_def)

text \<open>
  C9, at a call the shell's marker gets wrong. With GNU sed,
  \<open>mark_task_complete_markdown\<close> for the title \<open>x|y\<close> turns the line \<open>- [ ] x|y\<close> into
  \<open>- [x] x|y|y\<close>, and a second call turns that line into \<open>- [x] x|- [x] x|y|y\<close>: two calls
  do not leave the file as one call does. (The escaped bar separates alternatives, so the
  pattern matches \<open>- [ ] x\<close> at the start of a line or \<open>y\<close> anywhere.)
\<close>

theorem shell_marker_not_idempotent:
  "mark_task_complete_markdown True (w_sed_rx w7) ''x|y'' [''- [ ] x|y''] = Inr [''- [x] x|y|y''] \<and>
   mark_task_complete_markdown True (w_sed_rx w7) ''x|y'' [''- [x] x|y|y'']
     = Inr [''- [x] x|- [x] x|y|y'']"
  by code_simp

text \<open>
  C10. \<open>markComplete(id)\<close> writes no file but the one the id names; in that file the number
  of lines is kept and every line is kept, except that the line whose 1-based number the
  id gives loses a leading \<open>- [ ] \<close> for \<open>- [x] \<close>. When the id names no line of the file,
  or a line that does not begin with \<open>- [ ] \<close>, or when the call throws, the files are
  as before.
\<close>

theorem markComplete_frame:
  "(case parseTaskId join parseInt folderPath ident of
      Inl e \<Rightarrow> snd (markComplete join parseInt folderPath ident fs) = fs
    | Inr (filePath, lineNumber) \<Rightarrow>
        (case fs filePath of
           None \<Rightarrow> snd (markComplete join parseInt folderPath ident fs) = fs
         | Some content \<Rightarrow>
             (\<exists>content'.
                snd (markComplete join parseInt folderPath ident fs) = fs(filePath \<mapsto> content') \<and>
                length (split_nl content') = length (split_nl content) \<and>
                (\<forall>i < length (split_nl content).
                   split_nl content' ! i =
                     (if lineNumber = Some (int i + 1) \<and> prefix ''- [ ] '' (split_nl content ! i)
                      then ''- [x] '' @ drop 6 (split_nl content ! i)
                      else split_nl content ! i)) \<and>
                ((\<forall>i < length (split_nl content).
                    lineNumber = Some (int i + 1) \<longrightarrow> \<not> prefix ''- [ ] '' (split_nl content ! i))
                 \<longrightarrow> snd (markComplete join parseInt folderPath ident fs) = fs))))"
proof (cases "parseTaskId join parseInt folderPath ident")
  case (Inl e)
  then show ?thesis by (simp add: markComplete_def)
next
  case (Inr r)
  obtain filePath lineNumber where r: "r = (filePath, lineNumber)" by (cases r)
  show ?thesis
  proof (cases "fs filePath")
    case None
    with Inr r show ?thesis by (simp add: markComplete_def)
  next
    case (Some content)
    let ?ls = "split_nl content"
    have same: "fs(filePath \<mapsto> content) = fs" using Some by (auto simp: fun_upd_idem)
    have goal_unchanged: ?thesis
      if u: "snd (markComplete join parseInt folderPath ident fs) = fs"
        and na: "\<forall>i < length ?ls. lineNumber = Some (int i + 1) \<longrightarrow> \<not> prefix ''- [ ] '' (?ls ! i)"
    proof -
      have "\<exists>content'.
                snd (markComplete join parseInt folderPath ident fs) = fs(filePath \<mapsto> content') \<and>
                length (split_nl content') = length ?ls \<and>
                (\<forall>i < length ?ls.
                   split_nl content' ! i =
                     (if lineNumber = Some (int i + 1) \<and> prefix ''- [ ] '' (?ls ! i)
                      then ''- [x] '' @ drop 6 (?ls ! i)
                      else ?ls ! i)) \<and>
                ((\<forall>i < length ?ls.
                    lineNumber = Some (int i + 1) \<longrightarrow> \<not> prefix ''- [ ] '' (?ls ! i))
                 \<longrightarrow> snd (markComplete join parseInt folderPath ident fs) = fs)"
        using u na same by (intro exI[of _ content]) auto
      then show ?thesis
        by (simp only: Inr r sum.case prod.case Some option.case)
    qed
    show ?thesis
    proof (cases lineNumber)
      case None
      have "snd (markComplete join parseInt folderPath ident fs) = fs"
        using Inr r Some None by (simp add: markComplete_def Let_def)
      then show ?thesis using None by (intro goal_unchanged) simp_all
    next
      case (Some n)
      show ?thesis
      proof (cases "0 \<le> n - 1 \<and> n - 1 < int (length ?ls)")
        case False
        have "snd (markComplete join parseInt folderPath ident fs) = fs"
          using Inr r \<open>fs filePath = Some content\<close> Some False
          by (auto simp: markComplete_def Let_def)
        moreover have "\<forall>i < length ?ls. lineNumber \<noteq> Some (int i + 1)"
          using Some False by auto
        ultimately show ?thesis by (intro goal_unchanged) simp_all
      next
        case True
        let ?i = "nat (n - 1)"
        let ?c' = "join_nl (?ls[?i := replace_box (?ls ! ?i)])"
        have il: "?i < length ?ls" using True by auto
        have addr: "\<And>i. lineNumber = Some (int i + 1) \<longleftrightarrow> i = ?i"
          using Some True by auto
        have res: "snd (markComplete join parseInt folderPath ident fs) = fs(filePath \<mapsto> ?c')"
          using Inr r \<open>fs filePath = Some content\<close> Some True
          by (simp add: markComplete_def Let_def)
        have sp: "split_nl ?c' = ?ls[?i := replace_box (?ls ! ?i)]" by (rule split_updated)
        have len: "length (split_nl ?c') = length ?ls" by (simp add: sp)
        have lines: "\<forall>i < length ?ls. split_nl ?c' ! i =
                     (if lineNumber = Some (int i + 1) \<and> prefix ''- [ ] '' (?ls ! i)
                      then ''- [x] '' @ drop 6 (?ls ! i) else ?ls ! i)"
          unfolding sp addr
          by (auto simp: nth_list_update replace_box_def box_open_def box_done_def eval_nat_numeral)
        have unch: "(\<forall>i < length ?ls. lineNumber = Some (int i + 1) \<longrightarrow> \<not> prefix ''- [ ] '' (?ls ! i))
                 \<longrightarrow> snd (markComplete join parseInt folderPath ident fs) = fs"
        proof
          assume "\<forall>i < length ?ls. lineNumber = Some (int i + 1) \<longrightarrow> \<not> prefix ''- [ ] '' (?ls ! i)"
          then have "\<not> prefix ''- [ ] '' (?ls ! ?i)" using il addr by blast
          then have "replace_box (?ls ! ?i) = ?ls ! ?i" by (simp add: replace_box_def box_open_def)
          then have "?c' = content" by simp
          with res same show "snd (markComplete join parseInt folderPath ident fs) = fs" by simp
        qed
        have "\<exists>content'.
                snd (markComplete join parseInt folderPath ident fs) = fs(filePath \<mapsto> content') \<and>
                length (split_nl content') = length ?ls \<and>
                (\<forall>i < length ?ls.
                   split_nl content' ! i =
                     (if lineNumber = Some (int i + 1) \<and> prefix ''- [ ] '' (?ls ! i)
                      then ''- [x] '' @ drop 6 (?ls ! i)
                      else ?ls ! i)) \<and>
                ((\<forall>i < length ?ls.
                    lineNumber = Some (int i + 1) \<longrightarrow> \<not> prefix ''- [ ] '' (?ls ! i))
                 \<longrightarrow> snd (markComplete join parseInt folderPath ident fs) = fs)"
          by (intro exI[of _ ?c'] conjI res len lines unch)
        then show ?thesis
          by (simp only: Inr r sum.case prod.case \<open>fs filePath = Some content\<close> option.case)
      qed
    qed
  qed
qed

theorem markComplete_frame_witness:
  "(\<exists>content'. snd (markComplete slash_join parseInt10 ''tasks'' ''a.md:2'' files0)
                   = files0(''tasks/a.md'' \<mapsto> content') \<and>
      length (split_nl content') = 3 \<and>
      split_nl content' ! 0 = ''# Tasks'' \<and>
      split_nl content' ! 1 = ''- [x] one'' \<and>
      split_nl content' ! 2 = ''- [ ] two'') \<and>
   snd (markComplete slash_join parseInt10 ''tasks'' ''a.md:1'' files0) = files0"
proof -
  let ?L = "[''# Tasks'', ''- [ ] one'', ''- [ ] two'']"
  have f: "files0 ''tasks/a.md'' = Some (join_nl ?L)"
    by (simp add: files0_def)
  note inst = markComplete_frame[of slash_join parseInt10 "''tasks''" "''a.md:2''" files0,
      unfolded parseTaskId_a2 sum.case prod.case f option.case split_files0]
  from inst obtain content' where
    a: "snd (markComplete slash_join parseInt10 ''tasks'' ''a.md:2'' files0) = files0(''tasks/a.md'' \<mapsto> content')"
    and b: "length (split_nl content') = length ?L"
    and c: "\<And>i. i < length ?L \<Longrightarrow> split_nl content' ! i =
              (if Some (2::int) = Some (int i + 1) \<and> prefix ''- [ ] '' (?L ! i)
               then ''- [x] '' @ drop 6 (?L ! i) else ?L ! i)"
    by blast
  have "split_nl content' ! 0 = ''# Tasks''" using c[of 0] by simp
  moreover have "split_nl content' ! 1 = ''- [x] one''" using c[of 1] by simp
  moreover have "split_nl content' ! 2 = ''- [ ] two''" using c[of 2] by simp
  moreover have "length (split_nl content') = 3" using b by simp
  ultimately have first: "\<exists>content'. snd (markComplete slash_join parseInt10 ''tasks'' ''a.md:2'' files0)
                   = files0(''tasks/a.md'' \<mapsto> content') \<and>
      length (split_nl content') = 3 \<and>
      split_nl content' ! 0 = ''# Tasks'' \<and>
      split_nl content' ! 1 = ''- [x] one'' \<and>
      split_nl content' ! 2 = ''- [ ] two''" using a by blast
  note inst1 = markComplete_frame[of slash_join parseInt10 "''tasks''" "''a.md:1''" files0,
      unfolded parseTaskId_a1 sum.case prod.case f option.case split_files0]
  have na: "\<forall>i<length ?L. Some (1::int) = Some (int i + 1) \<longrightarrow> \<not> prefix ''- [ ] '' (?L ! i)"
    by auto
  from inst1 na have "snd (markComplete slash_join parseInt10 ''tasks'' ''a.md:1'' files0) = files0"
    by blast
  with first show ?thesis by blast
qed

subsection \<open>A parallel agent that never answers\<close>



text \<open>
  On a strict shell the subshell of such a run ends at \<open>((retry++))\<close> after the first
  attempt, with \<open>running\<close> left in the status file. (A parallel run of the script does not
  get that far on a strict shell: it ends at \<open>((batch_num++))\<close>.)
\<close>

lemma strict_shell_kills_empty_run:
  assumes "strict_errexit cfg" and "is_dir env (worktree_dir_of cfg env task_name agent_num)"
    and "0 < MAX_RETRIES cfg" and "cmdsubst (agent_output env 0) = []"
  shows "final_status (run_parallel_agent cfg jq env task_name agent_num) = Running"
proof -
  have "\<exists>e. agent_retry True (MAX_RETRIES cfg) (agent_exit env) (agent_output env) 0 = (Killed e, 1)"
    using assms(3,4) by (subst agent_retry.simps) simp
  then show ?thesis
    using assms(1,2) by (auto simp: run_parallel_agent_def worktree_dir_of_def Let_def final_status_def)
qed
















subsection \<open>The parsers of base.ts\<close>

lemma truthy_js_or: "truthy b \<Longrightarrow> truthy (js_or a b)"
  by (simp add: js_or_def)

lemma truthy_task_completed [simp]: "truthy task_completed"
  by (simp add: task_completed_def)

lemma get_prop_type_result:
  "get_prop v ''type'' = Inr (Val (JStr ''result'')) \<Longrightarrow> \<exists>kvs. v = JObj kvs"
  by (cases v) (simp_all add: get_prop_def)

lemma result_line_step:
  "\<exists>acc1. try_catch (result_line_try p acc line) (Inr acc) = Inr acc1 \<and>
      (acc1 = acc \<or>
       (truthy (sr_response acc1) \<and>
        (\<not> carries_result p line \<longrightarrow> sr_response acc1 = task_completed)))"
proof (cases "p line")
  case None
  then show ?thesis
    by (simp add: result_line_try_def JSON_parse_def bind_exn_def try_catch_def)
next
  case (Some v)
  show ?thesis
  proof (cases v)
    case (JObj kvs)
    show ?thesis
    proof (cases "own_prop kvs ''type'' = Val (JStr ''result'')")
      case True
      then show ?thesis using Some JObj
        by (auto simp: result_line_try_def JSON_parse_def bind_exn_def try_catch_def get_prop_def
              carries_result_def js_or_def)
    next
      case False
      then show ?thesis using Some JObj
        by (simp add: result_line_try_def JSON_parse_def bind_exn_def try_catch_def get_prop_def)
    qed
  qed (use Some in \<open>simp_all add: result_line_try_def JSON_parse_def bind_exn_def try_catch_def get_prop_def\<close>)
qed

lemma result_loop_inv:
  "\<exists>acc'. result_loop p ls acc = Inr acc' \<and>
      (sr_response acc' = sr_response acc \<or>
       (truthy (sr_response acc') \<and>
        ((\<forall>l \<in> set ls. \<not> carries_result p l) \<longrightarrow> sr_response acc' = task_completed)))"
proof (induction ls arbitrary: acc)
  case Nil
  show ?case by simp
next
  case (Cons line ls)
  from result_line_step[of p acc line] obtain acc1 where
    s: "try_catch (result_line_try p acc line) (Inr acc) = Inr acc1"
    and s': "acc1 = acc \<or> (truthy (sr_response acc1) \<and>
        (\<not> carries_result p line \<longrightarrow> sr_response acc1 = task_completed))" by blast
  from Cons.IH[of acc1] obtain acc' where
    l: "result_loop p ls acc1 = Inr acc'"
    and l': "sr_response acc' = sr_response acc1 \<or>
       (truthy (sr_response acc') \<and>
        ((\<forall>l \<in> set ls. \<not> carries_result p l) \<longrightarrow> sr_response acc' = task_completed))" by blast
  have "result_loop p (line # ls) acc = Inr acc'"
    by (simp add: s l bind_exn_def)
  moreover have "sr_response acc' = sr_response acc \<or>
       (truthy (sr_response acc') \<and>
        ((\<forall>l \<in> set (line # ls). \<not> carries_result p l) \<longrightarrow> sr_response acc' = task_completed))"
    using s' l' by auto
  ultimately show ?case by blast
qed

lemma parse_opencode_response: "response (parse_opencode jq result) \<noteq> []"
  by (simp add: parse_opencode_def Let_def)

lemma response_text_sentinel_part:
  "\<exists>r. parseStreamJsonResult p output = Inr r"
  using result_loop_inv[of p "nonempty_lines output"
          "\<lparr>sr_response = Val (JStr []), sr_inputTokens = js_zero, sr_outputTokens = js_zero\<rparr>"]
  by (auto simp: parseStreamJsonResult_def bind_exn_def)

lemma lines_no_result:
  "nonempty_lines out_no_result = [''starting up'', ''{\"type\":\"system\",\"subtype\":\"init\"}'']"
  by (simp add: nonempty_lines_def out_no_result_def NL_def)

text \<open>
  In OpenCode mode the variable \<open>response\<close> of \<open>parse_ai_result\<close> is never empty, but the
  function hands it over with \<open>echo "$response"\<close>: a response that echo takes as an
  option is printed as nothing, and the caller reads an empty response.
\<close>

lemma opencode_response_swallowed:
  \<open>response (parse_vars (\<lambda>f i. (''-n'' @ [NL], True)) True ''{"type":"text","part":{"text":"-n"}}'')
     = ''-n'' \<and>
   returned_response (\<lambda>f i. (''-n'' @ [NL], True)) True ''{"type":"text","part":{"text":"-n"}}'' = []\<close>
  by code_simp

text \<open>
  C6 (as amended). \<open>parseStreamJsonResult\<close> returns, its response is a true value and so
  never the empty string, and it is \<open>"Task completed"\<close> whenever no line carries a result.
  The shell's \<open>parse_ai_result\<close> gives no such guarantee: in its default mode the response
  its caller reads is empty whenever no line of the output contains \<open>"type":"result"\<close>.
\<close>

theorem response_text_sentinel:
  "(\<exists>r. parseStreamJsonResult p output = Inr r \<and>
        truthy (sr_response r) \<and> sr_response r \<noteq> Val (JStr []) \<and>
        ((\<forall>l \<in> set (nonempty_lines output). \<not> carries_result p l)
           \<longrightarrow> sr_response r = task_completed)) \<and>
   (grep_lines ''\"type\":\"result\"'' result = []
      \<longrightarrow> returned_response jq False result = [])"
proof -
  let ?init = "\<lparr>sr_response = Val (JStr []), sr_inputTokens = js_zero, sr_outputTokens = js_zero\<rparr>"
  from result_loop_inv[of p "nonempty_lines output" ?init] obtain acc' where
    l: "result_loop p (nonempty_lines output) ?init = Inr acc'"
    and l': "sr_response acc' = Val (JStr []) \<or>
       (truthy (sr_response acc') \<and>
        ((\<forall>l \<in> set (nonempty_lines output). \<not> carries_result p l) \<longrightarrow> sr_response acc' = task_completed))"
    by auto
  let ?r = "acc'\<lparr>sr_response := js_or (sr_response acc') task_completed\<rparr>"
  have r: "parseStreamJsonResult p output = Inr ?r"
    by (simp add: parseStreamJsonResult_def l bind_exn_def)
  have t: "truthy (sr_response ?r)" by (simp add: truthy_js_or)
  then have ne: "sr_response ?r \<noteq> Val (JStr [])" by auto
  have tc: "(\<forall>l \<in> set (nonempty_lines output). \<not> carries_result p l) \<longrightarrow> sr_response ?r = task_completed"
    using l' by (auto simp: js_or_def)
  have a: "\<exists>r. parseStreamJsonResult p output = Inr r \<and>
        truthy (sr_response r) \<and> sr_response r \<noteq> Val (JStr []) \<and>
        ((\<forall>l \<in> set (nonempty_lines output). \<not> carries_result p l)
           \<longrightarrow> sr_response r = task_completed)"
    using r t ne tc by blast
  have c: "grep_lines ''\"type\":\"result\"'' result = []
      \<longrightarrow> returned_response jq False result = []"
    by (simp add: returned_response_def parse_ai_result_def parse_vars_def parse_claude_def tail1_def
        echo_def echo_option_def cmdsubst_def response_of_def text_lines_def tokens_mark_def
        as_stdin_def NL_def Let_def)
  from a c show ?thesis by blast
qed

theorem response_text_witness:
  "(\<exists>r. parseStreamJsonResult parse_demo out_no_result = Inr r \<and> sr_response r = task_completed) \<and>
   returned_response (w_jq w7) False out_no_result = []"
proof -
  have h: "\<forall>l \<in> set (nonempty_lines out_no_result). \<not> carries_result parse_demo l"
    by (simp add: lines_no_result carries_result_def parse_demo_def own_prop_def)
  have g: "grep_lines ''\"type\":\"result\"'' out_no_result = []"
    by code_simp
  from response_text_sentinel[of parse_demo out_no_result out_no_result "w_jq w7"] h g
  show ?thesis by blast
qed

text \<open>The claim as first stated covers \<open>parse_ai_result\<close> in its default mode: on an output
  without a result record the response it returns is the empty string.\<close>

theorem response_text_counterexample:
  "returned_response (w_jq w7) False ''hello'' = []"
  by code_simp

lemma result_loop_skip:
  "result_loop p (filter (parseable p) ls) acc = result_loop p ls acc"
proof (induction ls arbitrary: acc)
  case Nil show ?case by simp
next
  case (Cons l ls)
  show ?case
  proof (cases "p l")
    case None
    then have "try_catch (result_line_try p acc l) (Inr acc) = Inr acc"
      by (simp add: result_line_try_def JSON_parse_def bind_exn_def try_catch_def)
    moreover have "\<not> parseable p l" using None by (simp add: parseable_def)
    ultimately show ?thesis using Cons by (simp add: bind_exn_def)
  next
    case (Some v)
    have "result_loop p (filter (parseable p) ls) = result_loop p ls"
      using Cons by (intro ext)
    moreover have "parseable p l" using Some by (simp add: parseable_def)
    ultimately show ?thesis by simp
  qed
qed

lemma error_loop_skip:
  "error_loop p (filter (parseable p) ls) = error_loop p ls"
proof (induction ls)
  case Nil show ?case by simp
next
  case (Cons l ls)
  show ?case
  proof (cases "p l")
    case None
    then have "try_catch (error_line_try p l) (Inr None) = Inr None"
      by (simp add: error_line_try_def JSON_parse_def bind_exn_def try_catch_def)
    moreover have "\<not> parseable p l" using None by (simp add: parseable_def)
    ultimately show ?thesis using Cons by (simp add: bind_exn_def)
  next
    case (Some v)
    then have "parseable p l" by (simp add: parseable_def)
    with Cons show ?thesis by simp
  qed
qed

lemma try_catch_total: "\<exists>v. try_catch body (Inr d) = Inr v"
  by (cases body) (simp_all add: try_catch_def)

lemma error_loop_total: "\<exists>m. error_loop p ls = Inr m"
proof (induction ls)
  case Nil show ?case by simp
next
  case (Cons l ls)
  obtain v where v: "try_catch (error_line_try p l) (Inr None) = Inr v"
    using try_catch_total[of "error_line_try p l" None] by blast
  show ?case using Cons by (cases v) (simp_all add: v bind_exn_def)
qed

lemma detect_total: "\<exists>st. detectStepFromOutput p trim lower line = Inr st"
  using try_catch_total[of "detect_try p lower (trim line)" None]
  by (auto simp: detectStepFromOutput_def Let_def)

lemma lines_result:
  "filter (parseable parse_demo) (nonempty_lines out_result)
     = filter (parseable parse_demo) (nonempty_lines out_result_clean)"
  by (simp add: nonempty_lines_def out_result_def out_result_clean_def NL_def parseable_def parse_demo_def)

lemma eval_clean:
  "parseStreamJsonResult parse_demo out_result_clean
     = Inr \<lparr>sr_response = Val (JStr ''X''), sr_inputTokens = Val (JNum ''5''),
            sr_outputTokens = Val (JNum ''7'')\<rparr>"
  by (simp add: parseStreamJsonResult_def nonempty_lines_def out_result_clean_def NL_def
        parse_demo_def result_line_try_def JSON_parse_def bind_exn_def try_catch_def get_prop_def
        own_prop_def opt_prop_def js_or_def task_completed_def js_zero_def)

text \<open>
  C7. \<open>parseStreamJsonResult\<close>, \<open>checkForErrors\<close> and \<open>detectStepFromOutput\<close> return for
  every input and every behaviour of \<open>JSON.parse\<close>, \<open>trim\<close> and \<open>toLowerCase\<close>; two outputs
  with the same parseable non-empty lines give the same result and the same error, and a
  line that, trimmed, does not parse gives no step.
\<close>

theorem parsers_total_and_skip:
  "(\<exists>r. parseStreamJsonResult p output = Inr r) \<and>
   (\<exists>m. checkForErrors p output = Inr m) \<and>
   (\<exists>st. detectStepFromOutput p trim lower line = Inr st) \<and>
   (filter (parseable p) (nonempty_lines output) = filter (parseable p) (nonempty_lines output')
      \<longrightarrow> parseStreamJsonResult p output = parseStreamJsonResult p output' \<and>
          checkForErrors p output = checkForErrors p output') \<and>
   (\<not> parseable p (trim line) \<longrightarrow> detectStepFromOutput p trim lower line = Inr None)"
proof -
  have a: "\<exists>r. parseStreamJsonResult p output = Inr r"
    by (rule response_text_sentinel_part)
  have b: "\<exists>m. checkForErrors p output = Inr m"
    by (simp add: checkForErrors_def error_loop_total)
  have c: "\<exists>st. detectStepFromOutput p trim lower line = Inr st" by (rule detect_total)
  have d: "filter (parseable p) (nonempty_lines output) = filter (parseable p) (nonempty_lines output')
      \<longrightarrow> parseStreamJsonResult p output = parseStreamJsonResult p output' \<and>
          checkForErrors p output = checkForErrors p output'"
  proof
    assume e: "filter (parseable p) (nonempty_lines output) = filter (parseable p) (nonempty_lines output')"
    have "\<And>acc. result_loop p (nonempty_lines output) acc = result_loop p (nonempty_lines output') acc"
      using e result_loop_skip[of p "nonempty_lines output"] result_loop_skip[of p "nonempty_lines output'"]
      by simp
    moreover have "error_loop p (nonempty_lines output) = error_loop p (nonempty_lines output')"
      using e error_loop_skip[of p "nonempty_lines output"] error_loop_skip[of p "nonempty_lines output'"]
      by simp
    ultimately show "parseStreamJsonResult p output = parseStreamJsonResult p output' \<and>
          checkForErrors p output = checkForErrors p output'"
      by (simp add: parseStreamJsonResult_def checkForErrors_def)
  qed
  have e: "\<not> parseable p (trim line) \<longrightarrow> detectStepFromOutput p trim lower line = Inr None"
    by (simp add: parseable_def detectStepFromOutput_def Let_def detect_try_def JSON_parse_def
          bind_exn_def try_catch_def)
  from a b c d e show ?thesis by blast
qed

theorem parsers_total_and_skip_witness:
  "parseStreamJsonResult parse_demo out_result
     = Inr \<lparr>sr_response = Val (JStr ''X''), sr_inputTokens = Val (JNum ''5''),
            sr_outputTokens = Val (JNum ''7'')\<rparr> \<and>
   \<not> parseable parse_demo (trim_ascii ''  {not json '') \<and>
   detectStepFromOutput parse_demo trim_ascii toLowerCase ''  {not json '' = Inr None"
proof -
  have np: "\<not> parseable parse_demo (trim_ascii ''  {not json '')"
    by (simp add: parseable_def parse_demo_def trim_ascii_def is_space_def)
  from parsers_total_and_skip[of parse_demo out_result trim_ascii toLowerCase "''  {not json ''" out_result_clean]
    lines_result np eval_clean
  show ?thesis by simp
qed

subsection \<open>Step detection\<close>

lemma first_match_precedence:
  "fst c x \<Longrightarrow> \<forall>d \<in> set pre. \<not> fst d x \<Longrightarrow> first_match (pre @ c # post) x = Some (snd c)"
  by (induction pre) auto

lemma first_match_none: "first_match cs x = None \<longleftrightarrow> (\<forall>d \<in> set cs. \<not> fst d x)"
  by (induction cs) auto

lemma classify_step_table:
  "classify_step content command toolName = first_match ts_order (content, command, toolName)"
  by (simp add: classify_step_def ts_order_def mentions_def)

lemma detect_try_table:
  "detect_try p lower trimmed = bind_exn (step_input_of p lower trimmed) (\<lambda>x. Inr (first_match ts_order x))"
  by (simp add: detect_try_def step_input_of_def bind_exn_def classify_step_table
        split: sum.splits)

text \<open>When computing the tool name or the command throws.\<close>

lemma lower_prop_obj:
  "lower_prop lower (JObj kvs) k =
     (if no_text (own_prop kvs k) then Inl TypeError
      else Inr (case own_prop kvs k of Val (JStr s) \<Rightarrow> lower s | _ \<Rightarrow> []))"
  by (simp add: lower_prop_def get_prop_def bind_exn_def no_text_def split: jsval.splits json.splits)

lemma lower_prop_falsy:
  "\<not> no_text (own_prop kvs k) \<Longrightarrow>
     ((case own_prop kvs k of Val (JStr s) \<Rightarrow> lower s | _ \<Rightarrow> []) = []) = falsy_text lower (own_prop kvs k)"
  by (simp add: no_text_def falsy_text_def split: jsval.splits json.splits)

lemma tool_name_of_throws:
  "(\<exists>e. tool_name_of lower (JObj kvs) = Inl e) \<longleftrightarrow>
     (no_text (own_prop kvs ''tool'')
      \<or> (falsy_text lower (own_prop kvs ''tool'') \<and>
          (no_text (own_prop kvs ''name'')
           \<or> (falsy_text lower (own_prop kvs ''name'') \<and> no_text (own_prop kvs ''tool_name'')))))"
proof -
  have ft: "no_text v \<Longrightarrow> \<not> falsy_text lower v" for v
    by (simp add: no_text_def falsy_text_def split: jsval.splits json.splits)
  show ?thesis
    using lower_prop_falsy[of kvs "''tool''" lower] lower_prop_falsy[of kvs "''name''" lower]
      ft[of "own_prop kvs ''tool''"] ft[of "own_prop kvs ''name''"]
    by (auto simp: tool_name_of_def lower_prop_obj bind_exn_def)
qed

lemma step_input_throws:
  "p t = Some v \<Longrightarrow> (\<exists>e. step_input_of p lower t = Inl e) \<longleftrightarrow> fields_throw lower v"
proof (cases v)
  case (JObj kvs)
  assume pt: "p t = Some v"
  have "(\<exists>e. step_input_of p lower t = Inl e) \<longleftrightarrow>
        ((\<exists>e. tool_name_of lower (JObj kvs) = Inl e) \<or> no_text (own_prop kvs ''command''))"
    using pt JObj
    by (auto simp: step_input_of_def JSON_parse_def bind_exn_def lower_prop_obj split: sum.splits)
  then show ?thesis
    using JObj by (simp add: tool_name_of_throws fields_throw_def tool_fields_throw_def)
qed (auto simp: step_input_of_def JSON_parse_def bind_exn_def tool_name_of_def lower_prop_def
       get_prop_def fields_throw_def)

lemma step_input_unparsed:
  "p t = None \<Longrightarrow> step_input_of p lower t = Inl SyntaxError"
  by (simp add: step_input_of_def JSON_parse_def bind_exn_def)

lemma monitor_step_tracker: "monitor_step no_cut tracker_line ''Thinking'' = ''Updating PRD''"
  by code_simp

lemma detect_commit_line:
  "detectStepFromOutput parse_demo trim_ascii toLowerCase commit_line = Inr (Some ''Committing'')"
  by code_simp

text \<open>A field that is not reached does not matter: with \<open>tool\<close> a name, a \<open>name\<close> that is a
  number is never read; with \<open>tool\<close> a number the call throws and there is no step.\<close>

lemma detect_unreached_field:
  \<open>detectStepFromOutput parse_demo trim_ascii toLowerCase ''{"tool":"read","name":5}''
     = Inr (Some ''Reading code'') \<and>
   detectStepFromOutput parse_demo trim_ascii toLowerCase ''{"tool":5,"name":"read"}'' = Inr None\<close>
  by code_simp

lemma edit_input:
  \<open>step_input_of parse_demo toLowerCase (trim_ascii edit_test_line)
     = Inr (''{"tool":"edit","file_path":"src/app.test.ts"}'', [], ''edit'')\<close>
  by code_simp

text \<open>
  C5 (as amended). \<open>detectStepFromOutput\<close> returns the first match of, in this order:
  commit keyword, add keyword, lint keyword, test-runner keyword, test-file path,
  write/edit tool name, read/glob/grep tool name; it has no test for the tracker file. It
  returns no step when nothing matches, when the trimmed line does not start with \<open>{\<close>
  or does not parse, and when computing the tool name or the command throws. For a
  parsed record that is when the first of \<open>tool\<close>, \<open>name\<close>, \<open>tool_name\<close> that is not
  missing, \<open>null\<close> or a string with empty lower-case text has a value that is not a
  string, or when \<open>command\<close> has a value that is neither a string nor \<open>null\<close>; a field
  after the one that gives the name is not looked at. The shell's monitor keeps the same
  order with two more tests after the add keyword: \<open>progress.txt\<close>, then \<open>PRD.md\<close> or
  \<open>tasks.yaml\<close>; a test of the monitor holds when its pipeline \<open>echo | grep -q\<close> succeeds.
  In both, a test that holds decides the step when no test before it holds.
\<close>

theorem detect_step_order:
  "detectStepFromOutput p trim lower line =
     (if \<not> prefix ''{'' (trim line) then Inr None
      else case step_input_of p lower (trim line) of
             Inl e \<Rightarrow> Inr None
           | Inr x \<Rightarrow> Inr (first_match ts_order x)) \<and>
   (p t = None \<longrightarrow> step_input_of p lower t = Inl SyntaxError) \<and>
   (p t = Some v \<longrightarrow> ((\<exists>e. step_input_of p lower t = Inl e) \<longleftrightarrow> fields_throw lower v)) \<and>
   monitor_step pcut file current_step =
     (if file = [] then current_step
      else case first_match (sh_order pcut) (cmdsubst (tail_c 5000 file)) of
             None \<Rightarrow> current_step
           | Some st \<Rightarrow> st) \<and>
   (ts_order = pre @ c # post \<and> fst c x \<and> (\<forall>d \<in> set pre. \<not> fst d x)
      \<longrightarrow> first_match ts_order x = Some (snd c)) \<and>
   (sh_order pcut = pre' @ c' # post' \<and> fst c' y \<and> (\<forall>d \<in> set pre'. \<not> fst d y)
      \<longrightarrow> first_match (sh_order pcut) y = Some (snd c')) \<and>
   map snd ts_order =
     [''Committing'', ''Staging'', ''Linting'', ''Testing'', ''Writing tests'', ''Implementing'',
      ''Reading code''] \<and>
   map snd (sh_order pcut) =
     [''Committing'', ''Staging'', ''Logging'', ''Updating PRD'', ''Linting'', ''Testing'',
      ''Writing tests'', ''Implementing'', ''Reading code'']"
proof -
  have a: "detectStepFromOutput p trim lower line =
     (if \<not> prefix ''{'' (trim line) then Inr None
      else case step_input_of p lower (trim line) of
             Inl e \<Rightarrow> Inr None
           | Inr x \<Rightarrow> Inr (first_match ts_order x))"
    by (simp add: detectStepFromOutput_def Let_def detect_try_table try_catch_def bind_exn_def
          split: sum.splits)
  have a1: "p t = None \<longrightarrow> step_input_of p lower t = Inl SyntaxError"
    by (simp add: step_input_unparsed)
  have a2: "p t = Some v \<longrightarrow> ((\<exists>e. step_input_of p lower t = Inl e) \<longleftrightarrow> fields_throw lower v)"
    using step_input_throws[of p t v lower] by blast
  have b: "monitor_step pcut file current_step =
     (if file = [] then current_step
      else case first_match (sh_order pcut) (cmdsubst (tail_c 5000 file)) of
             None \<Rightarrow> current_step
           | Some st \<Rightarrow> st)"
    by (simp add: monitor_step_def sh_order_def Let_def)
  have c: "ts_order = pre @ c # post \<and> fst c x \<and> (\<forall>d \<in> set pre. \<not> fst d x)
      \<longrightarrow> first_match ts_order x = Some (snd c)"
    using first_match_precedence[of c x pre post] by auto
  have d: "sh_order pcut = pre' @ c' # post' \<and> fst c' y \<and> (\<forall>d \<in> set pre'. \<not> fst d y)
      \<longrightarrow> first_match (sh_order pcut) y = Some (snd c')"
    using first_match_precedence[of c' y pre' post'] by auto
  have e: "map snd ts_order =
     [''Committing'', ''Staging'', ''Linting'', ''Testing'', ''Writing tests'', ''Implementing'',
      ''Reading code'']"
    by (simp add: ts_order_def)
  have f: "map snd (sh_order pcut) =
     [''Committing'', ''Staging'', ''Logging'', ''Updating PRD'', ''Linting'', ''Testing'',
      ''Writing tests'', ''Implementing'', ''Reading code'']"
    by (simp add: sh_order_def)
  from a a1 a2 b c d e f show ?thesis by blast
qed

theorem detect_step_order_witness:
  "detectStepFromOutput parse_demo trim_ascii toLowerCase edit_test_line = Inr (Some ''Writing tests'') \<and>
   monitor_step no_cut edit_test_line ''Thinking'' = ''Writing tests''"
proof -
  have t: "prefix ''{'' (trim_ascii edit_test_line)" by code_simp
  have m: "first_match ts_order
             (''{\"tool\":\"edit\",\"file_path\":\"src/app.test.ts\"}'', [], ''edit'')
           = Some ''Writing tests''" by code_simp
  have f: "edit_test_line \<noteq> []" by code_simp
  have s: "first_match (sh_order no_cut) (cmdsubst (tail_c 5000 edit_test_line)) = Some ''Writing tests''"
    by code_simp
  from detect_step_order[of parse_demo trim_ascii toLowerCase edit_test_line _ _ no_cut edit_test_line "''Thinking''"]
  have "detectStepFromOutput parse_demo trim_ascii toLowerCase edit_test_line =
     (if \<not> prefix ''{'' (trim_ascii edit_test_line) then Inr None
      else case step_input_of parse_demo toLowerCase (trim_ascii edit_test_line) of
             Inl e \<Rightarrow> Inr None
           | Inr x \<Rightarrow> Inr (first_match ts_order x))"
    and "monitor_step no_cut edit_test_line ''Thinking'' =
     (if edit_test_line = [] then ''Thinking''
      else case first_match (sh_order no_cut) (cmdsubst (tail_c 5000 edit_test_line)) of
             None \<Rightarrow> ''Thinking''
           | Some st \<Rightarrow> st)"
    by blast+
  then show ?thesis by (simp add: t edit_input m f s)
qed

text \<open>The claim as first stated puts the tracker file before the tool names: a record of
  the read tool on \<open>PRD.md\<close> is a tracker update in that order, and reading code for
  \<open>detectStepFromOutput\<close>.\<close>

theorem detect_step_counterexample:
  "detectStepFromOutput parse_demo trim_ascii toLowerCase tracker_line = Inr (Some ''Reading code'') \<and>
   spec_detectStep parse_demo trim_ascii toLowerCase tracker_line = Inr (Some ''Updating tracker'')"
  by code_simp

end
